theory Spec2Isabelle
  imports Complex_Main "HOL-Library.Word"
begin

section \<open>The RealSense camera node: data model\<close>

text \<open>
  A shallow embedding of \<^verbatim>\<open>BaseRealSenseNode\<close>
  (\<^verbatim>\<open>realsense2_camera/src/base_realsense_node.cpp\<close>). The node object is a record;
  each member function takes the node and returns it updated. Calls into the camera SDK and
  into the middleware (clock readings, subscriber counts, filter processing) are inputs of
  the functions. C++ \<^verbatim>\<open>float\<close> and \<^verbatim>\<open>double\<close> values are modelled as \<open>real\<close>:
  comparisons against the literals 0 and 1 are exact on floats, rounding of sums and
  products is not modelled, and a NaN (which fails every comparison) has no counterpart.
\<close>

subsection \<open>SDK enumerations and stream keys\<close>

datatype rs2_stream =
    RS2_STREAM_ANY
  | RS2_STREAM_DEPTH
  | RS2_STREAM_COLOR
  | RS2_STREAM_INFRARED
  | RS2_STREAM_FISHEYE
  | RS2_STREAM_GYRO
  | RS2_STREAM_ACCEL
  | RS2_STREAM_GPIO
  | RS2_STREAM_POSE
  | RS2_STREAM_CONFIDENCE

datatype rs2_format =
    RS2_FORMAT_ANY
  | RS2_FORMAT_Z16
  | RS2_FORMAT_DISPARITY16
  | RS2_FORMAT_XYZ32F
  | RS2_FORMAT_YUYV
  | RS2_FORMAT_RGB8
  | RS2_FORMAT_BGR8
  | RS2_FORMAT_RGBA8
  | RS2_FORMAT_BGRA8
  | RS2_FORMAT_Y8
  | RS2_FORMAT_Y16
  | RS2_FORMAT_RAW10
  | RS2_FORMAT_RAW16
  | RS2_FORMAT_RAW8
  | RS2_FORMAT_UYVY
  | RS2_FORMAT_MOTION_RAW
  | RS2_FORMAT_MOTION_XYZ32F

datatype rs2_timestamp_domain =
    RS2_TIMESTAMP_DOMAIN_HARDWARE_CLOCK
  | RS2_TIMESTAMP_DOMAIN_SYSTEM_TIME

text \<open>The OpenCV element types the node uses.\<close>

datatype cv_type = CV_8UC1 | CV_8UC3 | CV_16UC1

type_synonym stream_index_pair = "rs2_stream \<times> int"

definition COLOR :: stream_index_pair where "COLOR = (RS2_STREAM_COLOR, 0)"
definition DEPTH :: stream_index_pair where "DEPTH = (RS2_STREAM_DEPTH, 0)"
definition INFRA1 :: stream_index_pair where "INFRA1 = (RS2_STREAM_INFRARED, 1)"
definition INFRA2 :: stream_index_pair where "INFRA2 = (RS2_STREAM_INFRARED, 2)"
definition FISHEYE :: stream_index_pair where "FISHEYE = (RS2_STREAM_FISHEYE, 0)"
definition GYRO :: stream_index_pair where "GYRO = (RS2_STREAM_GYRO, 0)"
definition ACCEL :: stream_index_pair where "ACCEL = (RS2_STREAM_ACCEL, 0)"

text \<open>
  The message encodings of \<^verbatim>\<open>sensor_msgs::image_encodings\<close> are string constants.
\<close>

definition TYPE_16UC1 :: string where "TYPE_16UC1 = ''16UC1''"
definition TYPE_8UC1 :: string where "TYPE_8UC1 = ''8UC1''"
definition RGB8 :: string where "RGB8 = ''rgb8''"

text \<open>
  Every exception the modelled code raises derives from \<^verbatim>\<open>std::exception\<close>:
  \<^verbatim>\<open>std::out_of_range\<close> from \<^verbatim>\<open>std::map::at\<close>, \<^verbatim>\<open>std::runtime_error\<close>, and the
  SDK's \<^verbatim>\<open>rs2::error\<close>. Two ways of stopping are not exceptions that a handler can
  catch: a failed \<^verbatim>\<open>assert\<close> and a \<^verbatim>\<open>throw;\<close> with no exception in flight
  (\<^verbatim>\<open>std::terminate\<close>).
\<close>

datatype std_exception =
    Out_of_range
  | Runtime_error string
  | Rs2_error string

datatype failure =
    Thrown std_exception
  | Assertion_failed
  | Terminate_called

subsection \<open>Strings\<close>

text \<open>
  \<^verbatim>\<open>boost::split(result, input, pred)\<close> with the default \<^verbatim>\<open>token_compress_off\<close>:
  every separator ends a token, so the empty string gives one empty token.
\<close>

fun boost_split :: "(char \<Rightarrow> bool) \<Rightarrow> string \<Rightarrow> string list" where
  "boost_split p [] = [[]]"
| "boost_split p (c # cs) =
     (if p c then [] # boost_split p cs
      else (case boost_split p cs of
              [] \<Rightarrow> [[c]]
            | t # ts \<Rightarrow> (c # t) # ts))"

fun starts_with :: "string \<Rightarrow> string \<Rightarrow> bool" where
  "starts_with s [] = True"
| "starts_with [] (p # ps) = False"
| "starts_with (c # cs) (p # ps) = (c = p \<and> starts_with cs ps)"

text \<open>
  \<^verbatim>\<open>std::string::find(pat)\<close>: the position of the first occurrence, \<open>None\<close> for
  \<^verbatim>\<open>npos\<close>.
\<close>

fun string_find :: "string \<Rightarrow> string \<Rightarrow> nat option" where
  "string_find [] pat = (if pat = [] then Some 0 else None)"
| "string_find (c # cs) pat =
     (if starts_with (c # cs) pat then Some 0
      else map_option Suc (string_find cs pat))"

subsection \<open>Stream profiles, frames and filters\<close>

text \<open>What \<^verbatim>\<open>rs2::video_stream_profile\<close> reports of one hardware configuration.\<close>

record stream_profile =
  profile_stream_type :: rs2_stream
  profile_stream_index :: int
  profile_format :: rs2_format
  profile_width :: int
  profile_height :: int
  profile_fps :: int

text \<open>A \<^verbatim>\<open>cv::Mat\<close> header: rows, columns, element type, and the bytes it points to.\<close>

record mat =
  rows :: int
  cols :: int
  mat_type :: cv_type
  mat_data :: "8 word list"

definition new_mat :: "int \<Rightarrow> int \<Rightarrow> cv_type \<Rightarrow> mat" where
  "new_mat r c t = \<lparr>rows = r, cols = c, mat_type = t, mat_data = []\<rparr>"

record vertex =
  vx :: real
  vy :: real
  vz :: real

record texture_coordinate =
  tu :: real
  tv :: real

record video_data =
  get_width :: int
  get_height :: int
  get_bytes_per_pixel :: int
  get_data :: "8 word list"

text \<open>
  What a frame carries: a point set (\<^verbatim>\<open>rs2::points\<close>, vertices and texture
  coordinates in parallel arrays of \<^verbatim>\<open>size()\<close> entries), an image
  (\<^verbatim>\<open>rs2::video_frame\<close>), or a motion sample (a \<^verbatim>\<open>float3\<close>).
\<close>

datatype frame_data =
    Points "(vertex \<times> texture_coordinate) list"
  | Video video_data
  | Motion real real real

record frame =
  stream_type :: rs2_stream
  stream_index :: int
  stream_format :: rs2_format
  get_timestamp :: real
  get_frame_timestamp_domain :: rs2_timestamp_domain
  get_frame_number :: nat
  frame_data :: frame_data

text \<open>
  The argument of a callback is a single frame or a composite one
  (\<^verbatim>\<open>rs2::frameset\<close>): its own header and the frames it bundles, in iteration order.
\<close>

datatype rs2_frame = Single frame | Frameset frame "frame list"

fun header :: "rs2_frame \<Rightarrow> frame" where
  "header (Single f) = f"
| "header (Frameset h fs) = h"

definition is_points :: "frame \<Rightarrow> bool" where
  "is_points f = (case frame_data f of Points ps \<Rightarrow> True | _ \<Rightarrow> False)"

definition is_video_frame :: "frame \<Rightarrow> bool" where
  "is_video_frame f = (case frame_data f of Video d \<Rightarrow> True | _ \<Rightarrow> False)"

definition sip_of :: "frame \<Rightarrow> stream_index_pair" where
  "sip_of f = (stream_type f, stream_index f)"

text \<open>The SDK processing blocks the node instantiates, and \<^verbatim>\<open>NamedFilter\<close>.\<close>

datatype rs2_filter =
    Disparity_transform bool
  | Spatial_filter
  | Temporal_filter
  | Decimation_filter
  | Colorizer
  | Pointcloud rs2_stream int

record named_filter =
  filter_name :: string
  filter_block :: rs2_filter

definition NamedFilter :: "string \<Rightarrow> rs2_filter \<Rightarrow> named_filter" where
  "NamedFilter n f = \<lparr>filter_name = n, filter_block = f\<rparr>"

subsection \<open>Published messages and the log\<close>

record image_msg =
  img_encoding :: string
  img_width :: int
  img_height :: int
  img_step :: int
  img_frame_id :: string
  img_stamp :: real
  img_seq :: nat
  img_data :: "8 word list"

record camera_info =
  info_frame_id :: string
  info_stamp :: real
  info_seq :: nat

record cloud_point =
  point_x :: real
  point_y :: real
  point_z :: real
  point_r :: "8 word"
  point_g :: "8 word"
  point_b :: "8 word"

text \<open>
  A \<^verbatim>\<open>sensor_msgs::PointCloud2\<close>: the header, the declared size, and the records the
  field iterators wrote, in the order they were written. The message buffer holds
  \<open>msg_width * msg_height\<close> records; \<open>msg_written\<close> lists every write of the iterators,
  also those past the end of that buffer.
\<close>

record pointcloud2 =
  msg_stamp :: real
  msg_frame_id :: string
  msg_width :: int
  msg_height :: int
  msg_is_dense :: bool
  msg_written :: "cloud_point list"

record imu_msg =
  imu_frame_id :: string
  imu_stamp :: real
  imu_seq :: int
  imu_orientation_covariance :: "real list"
  imu_angular_velocity :: "real \<times> real \<times> real"
  imu_linear_acceleration :: "real \<times> real \<times> real"

text \<open>
  \<^verbatim>\<open>publishFrame\<close> is called with the node's own maps or with the
  \<^verbatim>\<open>_depth_aligned_*\<close> maps; the channel says which.
\<close>

datatype channel = Raw | Aligned_depth

text \<open>
  What is published and what is logged at warning or error level. \<open>Warn_not_supported\<close>
  is the warning of the profile negotiation, with the values it prints: stream key,
  format, width, height and rate.
\<close>

datatype node_output =
    Image_published channel stream_index_pair image_msg
  | Info_published channel stream_index_pair camera_info
  | Pointcloud_published pointcloud2
  | Imu_published stream_index_pair imu_msg
  | Counter_published real int
  | ROS_WARN string
  | Warn_not_supported stream_index_pair rs2_format int int int
  | ROS_ERROR string

subsection \<open>The node\<close>

text \<open>
  The data members the modelled functions use. A \<^verbatim>\<open>std::map\<close> that the code only
  indexes with \<^verbatim>\<open>operator[]\<close> is a total function (a missing key reads as the
  value-initialised element); one that it also searches with \<^verbatim>\<open>find\<close>, reads with
  \<^verbatim>\<open>at\<close> or iterates over is a partial map; a map of publishers is the set of its keys
  (subscriber counts are read from the middleware at each call). \<open>outputs\<close> collects what
  the node publishes and what it logs at warning or error level, latest last.
\<close>

record node =
  align_depth :: bool
  pointcloud :: bool
  pointcloud_texture :: stream_index_pair
  filters_str :: string
  sync_frames :: bool
  ros_time_offset :: real
  intialize_time_base :: bool
  ros_time_base :: real
  camera_time_base :: real
  is_frame_arrived :: "stream_index_pair \<rightharpoonup> bool"
  format :: "stream_index_pair \<Rightarrow> rs2_format"
  image_format :: "stream_index_pair \<Rightarrow> cv_type"
  encoding :: "stream_index_pair \<rightharpoonup> string"
  unit_step_size :: "stream_index_pair \<Rightarrow> int"
  stream_name :: "stream_index_pair \<Rightarrow> string"
  depth_aligned_encoding :: "stream_index_pair \<rightharpoonup> string"
  width :: "stream_index_pair \<Rightarrow> int"
  height :: "stream_index_pair \<Rightarrow> int"
  fps :: "stream_index_pair \<Rightarrow> int"
  enable :: "stream_index_pair \<Rightarrow> bool"
  optical_frame_id :: "stream_index_pair \<rightharpoonup> string"
  enabled_profiles :: "stream_index_pair \<rightharpoonup> stream_profile list"
  image_m :: "stream_index_pair \<Rightarrow> mat"
  depth_aligned_image :: "stream_index_pair \<Rightarrow> mat"
  filters :: "named_filter list"
  seq :: "stream_index_pair \<Rightarrow> int"
  depth_aligned_seq :: "stream_index_pair \<Rightarrow> int"
  camera_info_m :: "stream_index_pair \<rightharpoonup> camera_info"
  depth_aligned_camera_info :: "stream_index_pair \<rightharpoonup> camera_info"
  info_publisher :: "stream_index_pair set"
  image_publishers :: "stream_index_pair set"
  depth_aligned_info_publisher :: "stream_index_pair set"
  depth_aligned_image_publishers :: "stream_index_pair set"
  imu_publishers :: "stream_index_pair set"
  counter_enabled :: bool
  send_counter :: bool
  image_counter :: int
  outputs :: "node_output list"

text \<open>\<^verbatim>\<open>m[k]\<close> on a partial map: the element, value-initialised when the key is new.\<close>

definition index_or :: "'v \<Rightarrow> ('k \<rightharpoonup> 'v) \<Rightarrow> 'k \<Rightarrow> 'v" where
  "index_or d m k = (case m k of Some v \<Rightarrow> v | None \<Rightarrow> d)"

text \<open>
  The constructor: the stream catalogue. Data members it does not initialise keep the
  value they have in the argument; the maps start empty.
\<close>

definition empty_mat :: mat where
  "empty_mat = \<lparr>rows = 0, cols = 0, mat_type = CV_8UC1, mat_data = []\<rparr>"

definition BaseRealSenseNode :: "node \<Rightarrow> node" where
  "BaseRealSenseNode s = s\<lparr>
     intialize_time_base := False,
     image_counter := 0,
     is_frame_arrived := [DEPTH \<mapsto> False, INFRA1 \<mapsto> False, INFRA2 \<mapsto> False,
       COLOR \<mapsto> False, FISHEYE \<mapsto> False, GYRO \<mapsto> False, ACCEL \<mapsto> False],
     format := (\<lambda>k. RS2_FORMAT_ANY)(DEPTH := RS2_FORMAT_Z16, INFRA1 := RS2_FORMAT_Y8,
       INFRA2 := RS2_FORMAT_Y8, COLOR := RS2_FORMAT_RGB8, FISHEYE := RS2_FORMAT_RAW8,
       GYRO := RS2_FORMAT_MOTION_XYZ32F, ACCEL := RS2_FORMAT_MOTION_XYZ32F),
     image_format := (\<lambda>k. CV_8UC1)(DEPTH := CV_16UC1, INFRA1 := CV_8UC1,
       INFRA2 := CV_8UC1, COLOR := CV_8UC3, FISHEYE := CV_8UC1,
       GYRO := CV_8UC1, ACCEL := CV_8UC1),
     encoding := [DEPTH \<mapsto> TYPE_16UC1, INFRA1 \<mapsto> TYPE_8UC1, INFRA2 \<mapsto> TYPE_8UC1,
       COLOR \<mapsto> RGB8, FISHEYE \<mapsto> TYPE_8UC1, GYRO \<mapsto> TYPE_8UC1, ACCEL \<mapsto> TYPE_8UC1],
     unit_step_size := (\<lambda>k. 0)(DEPTH := 2, INFRA1 := 1, INFRA2 := 1, COLOR := 3,
       FISHEYE := 1, GYRO := 1, ACCEL := 1),
     stream_name := (\<lambda>k. [])(DEPTH := ''depth'', INFRA1 := ''infra1'',
       INFRA2 := ''infra2'', COLOR := ''color'', FISHEYE := ''fisheye'',
       GYRO := ''gyro'', ACCEL := ''accel''),
     depth_aligned_encoding := [DEPTH \<mapsto> TYPE_16UC1, INFRA1 \<mapsto> TYPE_16UC1,
       INFRA2 \<mapsto> TYPE_16UC1, COLOR \<mapsto> TYPE_16UC1, FISHEYE \<mapsto> TYPE_16UC1],
     width := (\<lambda>k. 0),
     height := (\<lambda>k. 0),
     fps := (\<lambda>k. 0),
     enable := (\<lambda>k. False),
     optical_frame_id := Map.empty,
     enabled_profiles := Map.empty,
     image_m := (\<lambda>k. empty_mat),
     depth_aligned_image := (\<lambda>k. empty_mat),
     filters := [],
     seq := (\<lambda>k. 0),
     depth_aligned_seq := (\<lambda>k. 0),
     camera_info_m := Map.empty,
     depth_aligned_camera_info := Map.empty,
     info_publisher := {},
     image_publishers := {},
     depth_aligned_info_publisher := {},
     depth_aligned_image_publishers := {},
     imu_publishers := {}\<rparr>"

section \<open>Configuration: \<^verbatim>\<open>getParameters\<close>\<close>

text \<open>
  The parameter server, as the typed lookups of \<^verbatim>\<open>ros::NodeHandle::param\<close> see it, and
  the defaults of \<^verbatim>\<open>constants.h\<close> (a header that is not part of the sources at hand:
  its values are parameters of the model; the per-stream ones are given by stream key).
\<close>

record param_server =
  get_bool :: "string \<rightharpoonup> bool"
  get_int :: "string \<rightharpoonup> int"
  get_double :: "string \<rightharpoonup> real"
  get_string :: "string \<rightharpoonup> string"

record constants =
  ALIGN_DEPTH :: bool
  POINTCLOUD :: bool
  DEFAULT_FILTERS :: string
  SYNC_FRAMES :: bool
  DEFAULT_ROS_TIME_OFFSET :: real
  STREAM_WIDTH :: "stream_index_pair \<Rightarrow> int"
  STREAM_HEIGHT :: "stream_index_pair \<Rightarrow> int"
  STREAM_FPS :: "stream_index_pair \<Rightarrow> int"
  ENABLE_STREAM :: "stream_index_pair \<Rightarrow> bool"
  ENABLE_IMU :: bool
  DEFAULT_OPTICAL_FRAME_ID :: "stream_index_pair \<Rightarrow> string"

definition param :: "'a option \<Rightarrow> 'a \<Rightarrow> 'a" where
  "param found dflt = (case found of Some v \<Rightarrow> v | None \<Rightarrow> dflt)"

definition rs2_string_to_stream :: "string \<Rightarrow> std_exception + rs2_stream" where
  "rs2_string_to_stream str =
     (if str = ''RS2_STREAM_ANY'' then Inr RS2_STREAM_ANY
      else if str = ''RS2_STREAM_COLOR'' then Inr RS2_STREAM_COLOR
      else if str = ''RS2_STREAM_INFRARED'' then Inr RS2_STREAM_INFRARED
      else if str = ''RS2_STREAM_FISHEYE'' then Inr RS2_STREAM_FISHEYE
      else Inl (Runtime_error (''Unknown stream string '' @ str)))"

text \<open>
  The image streams with a width, a height, a rate and an enable flag of their own, with
  the prefix of their parameter names.
\<close>

definition image_stream_params :: "(stream_index_pair \<times> string) list" where
  "image_stream_params =
     [(DEPTH, ''depth''), (INFRA1, ''infra1''), (INFRA2, ''infra2''),
      (COLOR, ''color''), (FISHEYE, ''fisheye'')]"

definition load_stream_params ::
  "constants \<Rightarrow> param_server \<Rightarrow> stream_index_pair \<times> string \<Rightarrow> node \<Rightarrow> node" where
  "load_stream_params c ps kn s =
     (let k = fst kn; n = snd kn in
      s\<lparr>width := (width s)(k := param (get_int ps (n @ ''_width'')) (STREAM_WIDTH c k)),
        height := (height s)(k := param (get_int ps (n @ ''_height'')) (STREAM_HEIGHT c k)),
        fps := (fps s)(k := param (get_int ps (n @ ''_fps'')) (STREAM_FPS c k)),
        enable := (enable s)(k := param (get_bool ps (''enable_'' @ n)) (ENABLE_STREAM c k))\<rparr>)"

definition load_optical_frame_id ::
  "constants \<Rightarrow> param_server \<Rightarrow> stream_index_pair \<times> string \<Rightarrow> node \<Rightarrow> node" where
  "load_optical_frame_id c ps kn s =
     s\<lparr>optical_frame_id := (optical_frame_id s)(fst kn \<mapsto>
         param (get_string ps (snd kn @ ''_optical_frame_id''))
           (DEFAULT_OPTICAL_FRAME_ID c (fst kn)))\<rparr>"

text \<open>
  \<^verbatim>\<open>getParameters\<close>, in the order of the source: alignment and point-cloud flags, the
  texture stream (an unknown name raises), the filter string, the synchronisation flag,
  the time offset, then the per-stream parameters and the optical frame ids. The loads of
  the JSON path, of the remaining frame ids and of the inter-camera synchronisation mode
  write members that no function modelled here reads; they are left out.
\<close>

definition getParameters :: "constants \<Rightarrow> param_server \<Rightarrow> node \<Rightarrow> std_exception + node" where
  "getParameters c ps s =
     (let s1 = s\<lparr>align_depth := param (get_bool ps ''align_depth'') (ALIGN_DEPTH c),
                 pointcloud := param (get_bool ps ''enable_pointcloud'') (POINTCLOUD c)\<rparr>;
          pc_texture_stream =
            param (get_string ps ''pointcloud_texture_stream'') ''RS2_STREAM_COLOR'';
          pc_texture_idx = param (get_int ps ''pointcloud_texture_index'') 0
      in case rs2_string_to_stream pc_texture_stream of
           Inl ex \<Rightarrow> Inl ex
         | Inr st \<Rightarrow>
            (let s2 = s1\<lparr>pointcloud_texture := (st, pc_texture_idx)\<rparr>;
                 s3 = s2\<lparr>filters_str := param (get_string ps ''filters'') (DEFAULT_FILTERS c)\<rparr>;
                 s4 = s3\<lparr>pointcloud :=
                        (pointcloud s3 \<or> string_find (filters_str s3) ''pointcloud'' \<noteq> None)\<rparr>;
                 s5 = s4\<lparr>sync_frames := param (get_bool ps ''enable_sync'') (SYNC_FRAMES c)\<rparr>;
                 s6 = (if pointcloud s5 \<or> align_depth s5 \<or> length (filters_str s5) > 0
                       then s5\<lparr>sync_frames := True\<rparr> else s5);
                 s7 = s6\<lparr>ros_time_offset :=
                        param (get_double ps ''ros_time_offset'') (DEFAULT_ROS_TIME_OFFSET c)\<rparr>;
                 s8 = fold (load_stream_params c ps) image_stream_params s7;
                 s9 = s8\<lparr>fps := (fps s8)(GYRO := param (get_int ps ''gyro_fps'') (STREAM_FPS c GYRO),
                                           ACCEL := param (get_int ps ''accel_fps'') (STREAM_FPS c ACCEL)),
                         enable := (enable s8)(GYRO := param (get_bool ps ''enable_imu'') (ENABLE_IMU c),
                                                 ACCEL := param (get_bool ps ''enable_imu'') (ENABLE_IMU c))\<rparr>
             in Inr (fold (load_optical_frame_id c ps)
                       (image_stream_params @ [(GYRO, ''gyro''), (ACCEL, ''accel'')]) s9)))"

section \<open>The filter pipeline: \<^verbatim>\<open>setupFilters\<close>\<close>

text \<open>
  The loop over the requested tokens. A token is compared whole, in the order of the
  source's \<^verbatim>\<open>if\<close> chain. An unknown non-empty token logs an error and executes
  \<^verbatim>\<open>throw;\<close> with no exception in flight. Whether an \<^verbatim>\<open>assert\<close> is compiled in
  depends on the build: \<open>NDEBUG\<close> says that it is not.
\<close>

fun filters_loop ::
  "bool \<Rightarrow> string list \<Rightarrow> bool \<Rightarrow> bool \<Rightarrow> node \<Rightarrow> failure + (bool \<times> bool \<times> node)" where
  "filters_loop NDEBUG [] use_disparity_filter use_colorizer_filter s =
     Inr (use_disparity_filter, use_colorizer_filter, s)"
| "filters_loop NDEBUG (tok # toks) use_disparity_filter use_colorizer_filter s =
     (if tok = ''colorizer'' then filters_loop NDEBUG toks use_disparity_filter True s
      else if tok = ''disparity'' then filters_loop NDEBUG toks True use_colorizer_filter s
      else if tok = ''spatial'' then
        filters_loop NDEBUG toks use_disparity_filter use_colorizer_filter
          (s\<lparr>filters := filters s @ [NamedFilter ''spatial'' Spatial_filter]\<rparr>)
      else if tok = ''temporal'' then
        filters_loop NDEBUG toks use_disparity_filter use_colorizer_filter
          (s\<lparr>filters := filters s @ [NamedFilter ''temporal'' Temporal_filter]\<rparr>)
      else if tok = ''decimation'' then
        filters_loop NDEBUG toks use_disparity_filter use_colorizer_filter
          (s\<lparr>filters := filters s @ [NamedFilter ''decimation'' Decimation_filter]\<rparr>)
      else if tok = ''pointcloud'' then
        (if NDEBUG \<or> pointcloud s
         then filters_loop NDEBUG toks use_disparity_filter use_colorizer_filter s
         else Inl Assertion_failed)
      else if length tok > 0 then Inl Terminate_called
      else filters_loop NDEBUG toks use_disparity_filter use_colorizer_filter s)"

definition add_disparity :: "node \<Rightarrow> node" where
  "add_disparity s =
     s\<lparr>filters := NamedFilter ''disparity_start'' (Disparity_transform True) # filters s
                    @ [NamedFilter ''disparity_end'' (Disparity_transform False)]\<rparr>"

text \<open>
  The colorizer branch: the filter is appended and the descriptor of DEPTH takes the
  values of COLOR. \<^verbatim>\<open>_encoding[COLOR]\<close> is an \<^verbatim>\<open>operator[]\<close> read of a partial map.
\<close>

definition add_colorizer :: "node \<Rightarrow> node" where
  "add_colorizer s =
     (let s1 = s\<lparr>filters := filters s @ [NamedFilter ''colorizer'' Colorizer]\<rparr>;
          s2 = s1\<lparr>format := (format s1)(DEPTH := format s1 COLOR)\<rparr>;
          s3 = s2\<lparr>image_format := (image_format s2)(DEPTH := image_format s2 COLOR)\<rparr>;
          s4 = s3\<lparr>encoding := (encoding s3)(COLOR \<mapsto> index_or [] (encoding s3) COLOR,
                                                 DEPTH \<mapsto> index_or [] (encoding s3) COLOR)\<rparr>;
          s5 = s4\<lparr>unit_step_size := (unit_step_size s4)(DEPTH := unit_step_size s4 COLOR)\<rparr>;
          s6 = s5\<lparr>width := (width s5)(DEPTH := width s5 COLOR)\<rparr>;
          s7 = s6\<lparr>height := (height s6)(DEPTH := height s6 COLOR)\<rparr>
      in s7\<lparr>image_m := (image_m s7)(DEPTH :=
               new_mat (height s7 DEPTH) (width s7 DEPTH) (image_format s7 DEPTH))\<rparr>)"

definition add_pointcloud :: "node \<Rightarrow> node" where
  "add_pointcloud s =
     s\<lparr>filters := filters s @ [NamedFilter ''pointcloud''
         (Pointcloud (fst (pointcloud_texture s)) (snd (pointcloud_texture s)))]\<rparr>"

definition setupFilters :: "bool \<Rightarrow> node \<Rightarrow> failure + node" where
  "setupFilters NDEBUG s =
     (case filters_loop NDEBUG (boost_split (\<lambda>c. c = CHR '','') (filters_str s)) False False s of
        Inl e \<Rightarrow> Inl e
      | Inr (use_disparity_filter, use_colorizer_filter, s1) \<Rightarrow>
         (let s2 = (if use_disparity_filter then add_disparity s1 else s1);
              s3 = (if use_colorizer_filter then add_colorizer s2 else s2);
              s4 = (if pointcloud s3 then add_pointcloud s3 else s3)
          in Inr s4))"

section \<open>Profile negotiation: \<^verbatim>\<open>enable_devices\<close>\<close>

definition profile_matches :: "node \<Rightarrow> stream_index_pair \<Rightarrow> stream_profile \<Rightarrow> bool" where
  "profile_matches s elem video_profile =
     (profile_format video_profile = format s elem \<and>
      (width s elem = 0 \<or> profile_width video_profile = width s elem) \<and>
      (height s elem = 0 \<or> profile_height video_profile = height s elem) \<and>
      (fps s elem = 0 \<or> profile_fps video_profile = fps s elem) \<and>
      profile_stream_index video_profile = snd elem)"

definition accept_profile :: "stream_index_pair \<Rightarrow> stream_profile \<Rightarrow> node \<Rightarrow> node" where
  "accept_profile elem profile s =
     (let s1 = s\<lparr>width := (width s)(elem := profile_width profile),
                 height := (height s)(elem := profile_height profile),
                 fps := (fps s)(elem := profile_fps profile)\<rparr>;
          s2 = s1\<lparr>enabled_profiles := (enabled_profiles s1)(elem \<mapsto>
                   index_or [] (enabled_profiles s1) elem @ [profile])\<rparr>
      in s2\<lparr>image_m := (image_m s2)(elem :=
               new_mat (height s2 elem) (width s2 elem) (image_format s2 elem))\<rparr>)"

text \<open>The scan of one sensor's profiles, in the order reported; it stops at the first match.\<close>

fun scan_profiles :: "stream_index_pair \<Rightarrow> stream_profile list \<Rightarrow> node \<Rightarrow> node" where
  "scan_profiles elem [] s = s"
| "scan_profiles elem (profile # profiles) s =
     (if profile_matches s elem profile then accept_profile elem profile s
      else scan_profiles elem profiles s)"

text \<open>
  The body of the loop for one stream key. \<open>get_stream_profiles elem\<close> is what the sensor
  of the stream reports.
\<close>

definition enable_stream ::
  "(stream_index_pair \<Rightarrow> stream_profile list) \<Rightarrow> stream_index_pair \<Rightarrow> node \<Rightarrow> node" where
  "enable_stream get_stream_profiles elem s =
     (if enable s elem then
        (let s1 = scan_profiles elem (get_stream_profiles elem) s in
         if enabled_profiles s1 elem = None then
           s1\<lparr>outputs := outputs s1 @
                 [Warn_not_supported elem (format s1 elem) (width s1 elem) (height s1 elem)
                    (fps s1 elem)],
              enable := (enable s1)(elem := False)\<rparr>
         else s1)
      else s)"

text \<open>
  \<open>IMAGE_STREAMS\<close> is declared in a header that is not part of the sources at hand; the
  function iterates over it as a list of lists of stream keys, and it is a parameter here.
\<close>

definition enable_devices ::
  "stream_index_pair list list \<Rightarrow> (stream_index_pair \<Rightarrow> stream_profile list) \<Rightarrow> node \<Rightarrow> node" where
  "enable_devices IMAGE_STREAMS get_stream_profiles s =
     (let s1 = fold (\<lambda>streams. fold (enable_stream get_stream_profiles) streams) IMAGE_STREAMS s
      in if align_depth s1 then
           s1\<lparr>depth_aligned_image := (\<lambda>k.
                 if k \<in> dom (enabled_profiles s1)
                 then new_mat (height s1 DEPTH) (width s1 DEPTH) (image_format s1 DEPTH)
                 else depth_aligned_image s1 k)\<rparr>
         else s1)"

section \<open>Publishing\<close>

text \<open>
  How a member function that may throw ends: it returns, it throws an exception (the node
  keeps what was written before the throw), or a failed \<^verbatim>\<open>assert\<close> aborts the process.
\<close>

datatype outcome = Returns node | Throws std_exception node | Aborts

fun and_then :: "outcome \<Rightarrow> (node \<Rightarrow> outcome) \<Rightarrow> outcome" where
  "and_then (Returns s) k = k s"
| "and_then (Throws ex s) k = Throws ex s"
| "and_then Aborts k = Aborts"

fun what :: "std_exception \<Rightarrow> string" where
  "what Out_of_range = ''map::at''"
| "what (Runtime_error m) = m"
| "what (Rs2_error m) = m"

text \<open>
  What one callback invocation reads from outside the node: the wall clock (read once when
  the time base is initialised and once for a synchronised stamp), the SDK's filters and
  its alignment block, and the subscriber counts of the publishers.
\<close>

record callback_env =
  now_at_init :: real
  now_at_stamp :: real
  process :: "named_filter \<Rightarrow> frame list \<Rightarrow> std_exception + frame list"
  align_to :: "rs2_stream \<Rightarrow> frame list \<Rightarrow> std_exception + frame"
  info_subscribers :: "channel \<Rightarrow> stream_index_pair \<Rightarrow> nat"
  image_subscribers :: "channel \<Rightarrow> stream_index_pair \<Rightarrow> nat"
  pointcloud_subscribers :: nat
  imu_subscribers :: "stream_index_pair \<Rightarrow> nat"

subsection \<open>\<^verbatim>\<open>publishPointCloud\<close>\<close>

text \<open>\<^verbatim>\<open>get_frame\<close>: the last frame of the set with the given stream type and index.\<close>

fun get_frame :: "frame list \<Rightarrow> rs2_stream \<Rightarrow> int \<Rightarrow> frame option \<Rightarrow> frame option" where
  "get_frame [] stream index f = f"
| "get_frame (fr # frs) stream index f =
     get_frame frs stream index
       (if stream_type fr = stream \<and> stream_index fr = index then Some fr else f)"

definition uv_in_range :: "real \<Rightarrow> real \<Rightarrow> bool" where
  "uv_in_range i j = (i \<ge> 0 \<and> i \<le> 1 \<and> j \<ge> 0 \<and> j \<le> 1)"

text \<open>The first pass: the number of points whose texture coordinates are in range.\<close>

fun count_valid_points :: "(vertex \<times> texture_coordinate) list \<Rightarrow> int \<Rightarrow> int" where
  "count_valid_points [] num_valid_points = num_valid_points"
| "count_valid_points (p # ps) num_valid_points =
     count_valid_points ps
       (if uv_in_range (tu (snd p)) (tv (snd p)) then num_valid_points + 1
        else num_valid_points)"

text \<open>\<^verbatim>\<open>static_cast<int>\<close> of a float truncates towards zero.\<close>

definition to_int :: "real \<Rightarrow> int" where
  "to_int r = (if r \<ge> 0 then \<lfloor>r\<rfloor> else \<lceil>r\<rceil>)"

text \<open>
  The second pass: the records written through the field iterators. Without a texture the
  test is made on \<open>i = j = 0\<close>. The colour is read at \<open>color_data[offset]\<close>; the source does
  not check the offset, and a read outside the buffer is as unspecified here (\<open>!\<close>) as
  it is there.
\<close>

fun fill_points ::
  "bool \<Rightarrow> int \<Rightarrow> int \<Rightarrow> 8 word list \<Rightarrow> (vertex \<times> texture_coordinate) list \<Rightarrow> cloud_point list" where
  "fill_points use_texture texture_width texture_height color_data [] = []"
| "fill_points use_texture texture_width texture_height color_data (p # ps) =
     (let i = (if use_texture then tu (snd p) else 0);
          j = (if use_texture then tv (snd p) else 0)
      in if uv_in_range i j then
           (let pixx = to_int (i * real_of_int texture_width);
                pixy = to_int (j * real_of_int texture_height);
                offset = (pixy * texture_width + pixx) * 3
            in \<lparr>point_x = vx (fst p), point_y = vy (fst p), point_z = vz (fst p),
                point_r = color_data ! nat offset,
                point_g = color_data ! nat (offset + 1),
                point_b = color_data ! nat (offset + 2)\<rparr>
               # fill_points use_texture texture_width texture_height color_data ps)
         else fill_points use_texture texture_width texture_height color_data ps)"

definition no_color :: "8 word list" where
  "no_color = [255, 255, 255]"

definition build_pointcloud ::
  "bool \<Rightarrow> int \<Rightarrow> int \<Rightarrow> 8 word list \<Rightarrow> (vertex \<times> texture_coordinate) list \<Rightarrow> real \<Rightarrow> node
     \<Rightarrow> outcome" where
  "build_pointcloud use_texture texture_width texture_height color_data pc t s =
     (let num_valid_points = count_valid_points pc 0;
          s1 = s\<lparr>optical_frame_id :=
                   (optical_frame_id s)(DEPTH \<mapsto> index_or [] (optical_frame_id s) DEPTH)\<rparr>;
          msg_pointcloud = \<lparr>msg_stamp = t,
             msg_frame_id = index_or [] (optical_frame_id s) DEPTH,
             msg_width = num_valid_points, msg_height = 1, msg_is_dense = True,
             msg_written = fill_points use_texture texture_width texture_height color_data pc\<rparr>
      in Returns (s1\<lparr>outputs := outputs s1 @ [Pointcloud_published msg_pointcloud],
                     send_counter := True\<rparr>))"

text \<open>
  \<^verbatim>\<open>publishPointCloud\<close>: with a texture stream configured, the texture frame is looked up
  in the frame set, and nothing is published when it is missing or not an image.
\<close>

definition publishPointCloud ::
  "bool \<Rightarrow> (vertex \<times> texture_coordinate) list \<Rightarrow> real \<Rightarrow> frame list \<Rightarrow> node \<Rightarrow> outcome" where
  "publishPointCloud NDEBUG pc t frameset s =
     (let use_texture = (fst (pointcloud_texture s) \<noteq> RS2_STREAM_ANY) in
      if use_texture then
        (case get_frame frameset (fst (pointcloud_texture s)) (snd (pointcloud_texture s)) None of
           None \<Rightarrow> Returns s
         | Some temp_frame \<Rightarrow>
            (case frame_data temp_frame of
               Video texture_frame \<Rightarrow>
                 if NDEBUG \<or> get_bytes_per_pixel texture_frame = 3 then
                   build_pointcloud use_texture (get_width texture_frame)
                     (get_height texture_frame) (get_data texture_frame) pc t s
                 else Aborts
             | _ \<Rightarrow> Returns s))
      else build_pointcloud use_texture 0 0 no_color pc t s)"

subsection \<open>\<^verbatim>\<open>publishFrame\<close>\<close>

text \<open>
  The maps \<^verbatim>\<open>publishFrame\<close> receives by reference, selected by the channel. The optical
  frame ids are the same map on both channels.
\<close>

fun images_of :: "channel \<Rightarrow> node \<Rightarrow> stream_index_pair \<Rightarrow> mat" where
  "images_of Raw s = image_m s"
| "images_of Aligned_depth s = depth_aligned_image s"

fun put_images :: "channel \<Rightarrow> (stream_index_pair \<Rightarrow> mat) \<Rightarrow> node \<Rightarrow> node" where
  "put_images Raw m s = s\<lparr>image_m := m\<rparr>"
| "put_images Aligned_depth m s = s\<lparr>depth_aligned_image := m\<rparr>"

fun seq_of :: "channel \<Rightarrow> node \<Rightarrow> stream_index_pair \<Rightarrow> int" where
  "seq_of Raw s = seq s"
| "seq_of Aligned_depth s = depth_aligned_seq s"

fun put_seq :: "channel \<Rightarrow> (stream_index_pair \<Rightarrow> int) \<Rightarrow> node \<Rightarrow> node" where
  "put_seq Raw m s = s\<lparr>seq := m\<rparr>"
| "put_seq Aligned_depth m s = s\<lparr>depth_aligned_seq := m\<rparr>"

fun camera_info_of :: "channel \<Rightarrow> node \<Rightarrow> stream_index_pair \<rightharpoonup> camera_info" where
  "camera_info_of Raw s = camera_info_m s"
| "camera_info_of Aligned_depth s = depth_aligned_camera_info s"

fun put_camera_info ::
  "channel \<Rightarrow> (stream_index_pair \<rightharpoonup> camera_info) \<Rightarrow> node \<Rightarrow> node" where
  "put_camera_info Raw m s = s\<lparr>camera_info_m := m\<rparr>"
| "put_camera_info Aligned_depth m s = s\<lparr>depth_aligned_camera_info := m\<rparr>"

fun info_publishers_of :: "channel \<Rightarrow> node \<Rightarrow> stream_index_pair set" where
  "info_publishers_of Raw s = info_publisher s"
| "info_publishers_of Aligned_depth s = depth_aligned_info_publisher s"

fun image_publishers_of :: "channel \<Rightarrow> node \<Rightarrow> stream_index_pair set" where
  "image_publishers_of Raw s = image_publishers s"
| "image_publishers_of Aligned_depth s = depth_aligned_image_publishers s"

fun encoding_of :: "channel \<Rightarrow> node \<Rightarrow> stream_index_pair \<rightharpoonup> string" where
  "encoding_of Raw s = encoding s"
| "encoding_of Aligned_depth s = depth_aligned_encoding s"

text \<open>The image bytes of a frame; the bytes of other payloads are not modelled.\<close>

definition data_of :: "frame \<Rightarrow> 8 word list" where
  "data_of f = (case frame_data f of Video vf \<Rightarrow> get_data vf | _ \<Rightarrow> [])"

text \<open>
  \<^verbatim>\<open>publishFrame\<close>. The image buffer of the stream takes the frame's size and data, the
  sequence counter is incremented, and the two publishers are looked up with \<^verbatim>\<open>at\<close>; the
  messages are built and published only when one of them has a subscriber. Every \<^verbatim>\<open>at\<close>
  on a missing key throws \<^verbatim>\<open>std::out_of_range\<close>. The update of the frequency
  diagnostics is not modelled.
\<close>

definition publishFrame ::
  "channel \<Rightarrow> callback_env \<Rightarrow> frame \<Rightarrow> real \<Rightarrow> stream_index_pair \<Rightarrow> bool \<Rightarrow> node \<Rightarrow> outcome" where
  "publishFrame ch env f t stream copy_data_from_frame s =
     (let w = (case frame_data f of Video vf \<Rightarrow> get_width vf | _ \<Rightarrow> 0);
          h = (case frame_data f of Video vf \<Rightarrow> get_height vf | _ \<Rightarrow> 0);
          bpp = (case frame_data f of Video vf \<Rightarrow> get_bytes_per_pixel vf | _ \<Rightarrow> 1);
          image0 = images_of ch s stream;
          image1 = (if copy_data_from_frame then
                      (if (cols image0, rows image0) \<noteq> (w, h)
                       then new_mat h w (image_format s stream) else image0)
                      \<lparr>mat_data := data_of f\<rparr>
                    else image0);
          s1 = put_images ch ((images_of ch s)(stream := image1)) s;
          s2 = put_seq ch ((seq_of ch s1)(stream := seq_of ch s1 stream + 1)) s1
      in if stream \<notin> info_publishers_of ch s2 then Throws Out_of_range s2
         else if stream \<notin> image_publishers_of ch s2 then Throws Out_of_range s2
         else if info_subscribers env ch stream \<noteq> 0 \<or> image_subscribers env ch stream \<noteq> 0 then
           (case encoding_of ch s2 stream of
              None \<Rightarrow> Throws Out_of_range s2
            | Some enc \<Rightarrow>
               (case optical_frame_id s2 stream of
                  None \<Rightarrow> Throws Out_of_range s2
                | Some fid \<Rightarrow>
                   (case camera_info_of ch s2 stream of
                      None \<Rightarrow> Throws Out_of_range s2
                    | Some ci \<Rightarrow>
                       (let img = \<lparr>img_encoding = enc, img_width = w, img_height = h,
                                   img_step = w * bpp, img_frame_id = fid, img_stamp = t,
                                   img_seq = get_frame_number f, img_data = mat_data image1\<rparr>;
                            cam_info = ci\<lparr>info_stamp := t, info_seq := get_frame_number f\<rparr>;
                            s3 = put_camera_info ch
                                   ((camera_info_of ch s2)(stream \<mapsto> cam_info)) s2
                        in Returns (s3\<lparr>outputs := outputs s3 @
                                          [Info_published ch stream cam_info,
                                           Image_published ch stream img],
                                        send_counter := True\<rparr>)))))
         else Returns s2)"

subsection \<open>\<^verbatim>\<open>publishAlignedDepthToOthers\<close>\<close>

text \<open>
  For every frame of the set that is not a depth frame, the depth frame aligned to that
  frame's stream is published on the aligned channel when it has a subscriber. The
  alignment itself is the SDK's (\<open>align_to\<close>). \<^verbatim>\<open>publishFrame\<close> is always called
  without its last argument, whose default is declared in a header that is not part of the
  sources at hand; it is the parameter \<open>cp\<close> of the callers.
\<close>

fun publishAlignedDepthToOthers ::
  "bool \<Rightarrow> callback_env \<Rightarrow> frame list \<Rightarrow> frame list \<Rightarrow> real \<Rightarrow> node \<Rightarrow> outcome" where
  "publishAlignedDepthToOthers cp env frames [] t s = Returns s"
| "publishAlignedDepthToOthers cp env frames (frame # rest) t s =
     (if stream_type frame = RS2_STREAM_DEPTH
      then publishAlignedDepthToOthers cp env frames rest t s
      else
        (let sip = sip_of frame in
         if sip \<notin> depth_aligned_info_publisher s then Throws Out_of_range s
         else if sip \<notin> depth_aligned_image_publishers s then Throws Out_of_range s
         else if info_subscribers env Aligned_depth sip \<noteq> 0
                 \<or> image_subscribers env Aligned_depth sip \<noteq> 0 then
           (case align_to env (stream_type frame) frames of
              Inl ex \<Rightarrow> Throws ex s
            | Inr aligned_depth_frame \<Rightarrow>
                and_then (publishFrame Aligned_depth env aligned_depth_frame t sip cp s)
                  (publishAlignedDepthToOthers cp env frames rest t))
         else publishAlignedDepthToOthers cp env frames rest t s))"

section \<open>The callbacks of \<^verbatim>\<open>setupStreams\<close>\<close>

subsection \<open>The time base\<close>

text \<open>The first block of the frame callback: the one place that writes the time base.\<close>

definition init_time_base :: "callback_env \<Rightarrow> rs2_frame \<Rightarrow> node \<Rightarrow> node" where
  "init_time_base env frame s =
     (if intialize_time_base s = False then
        (let s1 = (if get_frame_timestamp_domain (header frame) = RS2_TIMESTAMP_DOMAIN_SYSTEM_TIME
                   then s\<lparr>outputs := outputs s @ [ROS_WARN
                     ''Frame metadata isn't available! (frame_timestamp_domain = RS2_TIMESTAMP_DOMAIN_SYSTEM_TIME)'']\<rparr>
                   else s)
         in s1\<lparr>intialize_time_base := True,
               ros_time_base := now_at_init env,
               camera_time_base := get_timestamp (header frame)\<rparr>)
      else s)"

text \<open>The stamp \<open>t\<close> of the callback, in seconds; hardware timestamps are milliseconds.\<close>

definition frame_stamp :: "callback_env \<Rightarrow> rs2_frame \<Rightarrow> node \<Rightarrow> real" where
  "frame_stamp env frame s =
     (if sync_frames s then now_at_stamp env + ros_time_offset s
      else ros_time_base s + (get_timestamp (header frame) - camera_time_base s) / 1000)"

subsection \<open>The frame callback\<close>

text \<open>
  \<^verbatim>\<open>updateIsFrameArrived\<close> writes to a local copy of the map; what remains of it is the
  error logged for a stream key that the map does not hold.
\<close>

fun updateIsFrameArrived :: "frame list \<Rightarrow> node \<Rightarrow> node" where
  "updateIsFrameArrived [] s = s"
| "updateIsFrameArrived (f # fs) s =
     updateIsFrameArrived fs
       (if sip_of f \<in> dom (is_frame_arrived s) then s
        else s\<lparr>outputs := outputs s @ [ROS_ERROR ''Stream type is not supported!'']\<rparr>)"

text \<open>The filters run in list order, each on the output of the one before.\<close>

fun apply_filters ::
  "callback_env \<Rightarrow> named_filter list \<Rightarrow> frame list \<Rightarrow> std_exception + frame list" where
  "apply_filters env [] frameset = Inr frameset"
| "apply_filters env (filter_it # rest) frameset =
     (case process env filter_it frameset of
        Inl ex \<Rightarrow> Inl ex
      | Inr frameset' \<Rightarrow> apply_filters env rest frameset')"

text \<open>The loop that removes frames with the same stream type and index.\<close>

record dedup_state =
  points_in_set :: bool
  frames_to_publish :: "frame list"
  is_in_set :: "stream_index_pair list"
  is_depth_arrived :: bool
  depth_frame :: "frame option"

definition dedup_init :: dedup_state where
  "dedup_init = \<lparr>points_in_set = False, frames_to_publish = [], is_in_set = [],
                 is_depth_arrived = False, depth_frame = None\<rparr>"

fun dedup_loop :: "bool \<Rightarrow> frame list \<Rightarrow> dedup_state \<Rightarrow> dedup_state" where
  "dedup_loop align [] d = d"
| "dedup_loop align (f # fs) d =
     (if is_points f then
        dedup_loop align fs
          (if \<not> points_in_set d
           then d\<lparr>points_in_set := True, frames_to_publish := frames_to_publish d @ [f]\<rparr>
           else d)
      else
        (let sip = sip_of f;
             d1 = (if sip \<notin> set (is_in_set d)
                   then d\<lparr>is_in_set := is_in_set d @ [sip],
                          frames_to_publish := frames_to_publish d @ [f]\<rparr>
                   else d);
             d2 = (if align \<and> stream_type f = RS2_STREAM_DEPTH \<and> stream_format f = RS2_FORMAT_Z16
                   then d1\<lparr>depth_frame := Some f, is_depth_arrived := True\<rparr>
                   else d1)
         in dedup_loop align fs d2))"

text \<open>The loop over the retained frames: each goes to exactly one of the two sinks.\<close>

definition points_of :: "frame \<Rightarrow> (vertex \<times> texture_coordinate) list" where
  "points_of f = (case frame_data f of Points ps \<Rightarrow> ps | _ \<Rightarrow> [])"

fun publish_loop ::
  "bool \<Rightarrow> bool \<Rightarrow> callback_env \<Rightarrow> frame list \<Rightarrow> real \<Rightarrow> frame list \<Rightarrow> node \<Rightarrow> outcome" where
  "publish_loop NDEBUG cp env frameset t [] s = Returns s"
| "publish_loop NDEBUG cp env frameset t (f # fs) s =
     (if is_points f then
        (if pointcloud_subscribers env \<noteq> 0
         then and_then (publishPointCloud NDEBUG (points_of f) t frameset s)
                (publish_loop NDEBUG cp env frameset t fs)
         else publish_loop NDEBUG cp env frameset t fs s)
      else and_then (publishFrame Raw env f t (sip_of f) cp s)
             (publish_loop NDEBUG cp env frameset t fs))"

definition publish_counter :: "real \<Rightarrow> node \<Rightarrow> node" where
  "publish_counter t s =
     (if counter_enabled s \<and> send_counter s then
        s\<lparr>outputs := outputs s @ [Counter_published t (image_counter s)],
          image_counter := image_counter s + 1,
          send_counter := False\<rparr>
      else s)"

text \<open>The body of the \<^verbatim>\<open>try\<close> block.\<close>

definition frame_callback_body ::
  "bool \<Rightarrow> bool \<Rightarrow> callback_env \<Rightarrow> rs2_frame \<Rightarrow> node \<Rightarrow> outcome" where
  "frame_callback_body NDEBUG cp env frame s =
     (let s1 = init_time_base env frame s;
          t = frame_stamp env frame s1
      in and_then
           (case frame of
              Frameset h frames \<Rightarrow>
                (let s2 = updateIsFrameArrived frames s1 in
                 case apply_filters env (filters s2) frames of
                   Inl ex \<Rightarrow> Throws ex s2
                 | Inr frameset \<Rightarrow>
                    (let d = dedup_loop (align_depth s2) frameset dedup_init in
                     and_then (publish_loop NDEBUG cp env frameset t (frames_to_publish d) s2)
                       (\<lambda>s3. if align_depth s3 \<and> is_depth_arrived d
                             then publishAlignedDepthToOthers cp env frameset frameset t s3
                             else Returns s3)))
            | Single f \<Rightarrow>
                publishFrame Raw env f t (sip_of f) cp (updateIsFrameArrived [f] s1))
           (\<lambda>s4. Returns (publish_counter t s4)))"

text \<open>
  The callback: the body inside \<^verbatim>\<open>try\<close>, with the handler for \<^verbatim>\<open>std::exception\<close>
  that logs the error and lets the callback return.
\<close>

definition frame_callback ::
  "bool \<Rightarrow> bool \<Rightarrow> callback_env \<Rightarrow> rs2_frame \<Rightarrow> node \<Rightarrow> outcome" where
  "frame_callback NDEBUG cp env frame s =
     (case frame_callback_body NDEBUG cp env frame s of
        Throws ex s' \<Rightarrow>
          Returns (s'\<lparr>outputs := outputs s' @
            [ROS_ERROR (''An error has occurred during frame callback: '' @ what ex)]\<rparr>)
      | r \<Rightarrow> r)"

subsection \<open>The callback of the motion module\<close>

text \<open>
  The sample of a motion frame. The motion sensor delivers motion frames only; the
  source reinterprets the payload without a check, so other payloads are left open.
\<close>

fun axes_of :: "frame_data \<Rightarrow> real \<times> real \<times> real" where
  "axes_of (Motion ax ay az) = (ax, ay, az)"

text \<open>
  The callback returns at once while the time base is not initialised. After that it
  publishes the sample when a subscriber is there. An \<^verbatim>\<open>operator[]\<close> on a map of
  publishers inserts a missing key; such a publisher has no subscriber.
\<close>

definition imu_callback :: "callback_env \<Rightarrow> frame \<Rightarrow> node \<Rightarrow> node" where
  "imu_callback env frame s =
     (if intialize_time_base s = False then s
      else
        (let sip = (if stream_type frame = fst GYRO then GYRO else ACCEL);
             info_subs = (if sip \<in> info_publisher s then info_subscribers env Raw sip else 0);
             s1 = s\<lparr>info_publisher := insert sip (info_publisher s)\<rparr>;
             imu_subs = (if sip \<in> imu_publishers s1 then imu_subscribers env sip else 0);
             s2 = (if info_subs \<noteq> 0 then s1
                   else s1\<lparr>imu_publishers := insert sip (imu_publishers s1)\<rparr>)
         in if info_subs \<noteq> 0 \<or> imu_subs \<noteq> 0 then
              (let elapsed_camera_ms = (get_timestamp frame - camera_time_base s2) / 1000;
                   t = ros_time_base s2 + elapsed_camera_ms;
                   s3 = s2\<lparr>optical_frame_id :=
                          (optical_frame_id s2)(sip \<mapsto> index_or [] (optical_frame_id s2) sip)\<rparr>;
                   axes = axes_of (frame_data frame);
                   s4 = s3\<lparr>seq := (seq s3)(sip := seq s3 sip + 1)\<rparr>;
                   imu = \<lparr>imu_frame_id = index_or [] (optical_frame_id s2) sip,
                          imu_stamp = t,
                          imu_seq = seq s4 sip,
                          imu_orientation_covariance = [- 1, 0, 0, 0, 0, 0, 0, 0, 0],
                          imu_angular_velocity = (if GYRO = sip then axes else (0, 0, 0)),
                          imu_linear_acceleration =
                            (if GYRO = sip then (0, 0, 0)
                             else if ACCEL = sip then axes else (0, 0, 0))\<rparr>;
                   s5 = s4\<lparr>imu_publishers := insert sip (imu_publishers s4)\<rparr>
               in s5\<lparr>outputs := outputs s5 @ [Imu_published sip imu]\<rparr>)
            else s2))"

subsection \<open>A streaming session\<close>

text \<open>
  While the sensors stream, the SDK invokes the two callbacks in some order, each with what
  it reads from outside. A session is the list of these invocations; a callback that
  returns is followed by the next one.
\<close>

datatype event =
    Frame_event callback_env rs2_frame
  | Imu_event callback_env frame

fun step_event :: "bool \<Rightarrow> bool \<Rightarrow> event \<Rightarrow> node \<Rightarrow> outcome" where
  "step_event NDEBUG cp (Frame_event env frame) s = frame_callback NDEBUG cp env frame s"
| "step_event NDEBUG cp (Imu_event env frame) s = Returns (imu_callback env frame s)"

fun session :: "bool \<Rightarrow> bool \<Rightarrow> event list \<Rightarrow> node \<Rightarrow> outcome" where
  "session NDEBUG cp [] s = Returns s"
| "session NDEBUG cp (e # es) s = and_then (step_event NDEBUG cp e s) (session NDEBUG cp es)"

text \<open>The first invocation of the frame callback in a session, if there is one.\<close>

fun first_frame_event :: "event list \<Rightarrow> (callback_env \<times> rs2_frame) option" where
  "first_frame_event [] = None"
| "first_frame_event (Frame_event env frame # es) = Some (env, frame)"
| "first_frame_event (Imu_event env frame # es) = first_frame_event es"

text \<open>The stamp a published message carries.\<close>

fun stamp_of :: "node_output \<Rightarrow> real option" where
  "stamp_of (Image_published ch k img) = Some (img_stamp img)"
| "stamp_of (Info_published ch k ci) = Some (info_stamp ci)"
| "stamp_of (Pointcloud_published msg) = Some (msg_stamp msg)"
| "stamp_of (Imu_published k imu) = Some (imu_stamp imu)"
| "stamp_of (Counter_published t n) = Some t"
| "stamp_of (ROS_WARN m) = None"
| "stamp_of (Warn_not_supported k f w h r) = None"
| "stamp_of (ROS_ERROR m) = None"

section \<open>Concrete inputs\<close>

text \<open>A node whose members are all value-initialised, and the node after construction.\<close>

definition zero_node :: node where
  "zero_node = \<lparr>
     align_depth = False, pointcloud = False, pointcloud_texture = (RS2_STREAM_ANY, 0),
     filters_str = [], sync_frames = False, ros_time_offset = 0,
     intialize_time_base = False, ros_time_base = 0, camera_time_base = 0,
     is_frame_arrived = Map.empty, format = (\<lambda>k. RS2_FORMAT_ANY),
     image_format = (\<lambda>k. CV_8UC1), encoding = Map.empty, unit_step_size = (\<lambda>k. 0),
     stream_name = (\<lambda>k. []), depth_aligned_encoding = Map.empty,
     width = (\<lambda>k. 0), height = (\<lambda>k. 0), fps = (\<lambda>k. 0), enable = (\<lambda>k. False),
     optical_frame_id = Map.empty, enabled_profiles = Map.empty,
     image_m = (\<lambda>k. empty_mat), depth_aligned_image = (\<lambda>k. empty_mat),
     filters = [], seq = (\<lambda>k. 0), depth_aligned_seq = (\<lambda>k. 0),
     camera_info_m = Map.empty, depth_aligned_camera_info = Map.empty,
     info_publisher = {}, image_publishers = {},
     depth_aligned_info_publisher = {}, depth_aligned_image_publishers = {},
     imu_publishers = {}, counter_enabled = False, send_counter = False,
     image_counter = 0, outputs = []\<rparr>"

definition new_node :: node where
  "new_node = BaseRealSenseNode zero_node"

text \<open>Defaults that switch everything off, and a parameter server with two entries.\<close>

definition all_off :: constants where
  "all_off = \<lparr>ALIGN_DEPTH = False, POINTCLOUD = False, DEFAULT_FILTERS = [],
     SYNC_FRAMES = False, DEFAULT_ROS_TIME_OFFSET = 0,
     STREAM_WIDTH = (\<lambda>k. 0), STREAM_HEIGHT = (\<lambda>k. 0), STREAM_FPS = (\<lambda>k. 0),
     ENABLE_STREAM = (\<lambda>k. False), ENABLE_IMU = False,
     DEFAULT_OPTICAL_FRAME_ID = (\<lambda>k. [])\<rparr>"

definition temporal_pointcloud_request :: param_server where
  "temporal_pointcloud_request = \<lparr>get_bool = [''enable_sync'' \<mapsto> False],
     get_int = Map.empty, get_double = Map.empty,
     get_string = [''filters'' \<mapsto> ''temporal,pointcloud'']\<rparr>"

definition temporal_disparity_spatial_node :: node where
  "temporal_disparity_spatial_node = new_node\<lparr>filters_str := ''temporal,disparity,spatial''\<rparr>"

definition disparity_colorizer_node :: node where
  "disparity_colorizer_node = new_node\<lparr>filters_str := ''disparity,colorizer''\<rparr>"

text \<open>Frames: two depth images, a colour image, a point set and a gyroscope sample.\<close>

definition depth_image :: "nat \<Rightarrow> real \<Rightarrow> frame" where
  "depth_image n ts = \<lparr>stream_type = RS2_STREAM_DEPTH, stream_index = 0,
     stream_format = RS2_FORMAT_Z16, get_timestamp = ts,
     get_frame_timestamp_domain = RS2_TIMESTAMP_DOMAIN_HARDWARE_CLOCK, get_frame_number = n,
     frame_data = Video \<lparr>get_width = 2, get_height = 1, get_bytes_per_pixel = 2,
                          get_data = [1, 2, 3, 4]\<rparr>\<rparr>"


definition color_image :: "nat \<Rightarrow> real \<Rightarrow> frame" where
  "color_image n ts = \<lparr>stream_type = RS2_STREAM_COLOR, stream_index = 0,
     stream_format = RS2_FORMAT_RGB8, get_timestamp = ts,
     get_frame_timestamp_domain = RS2_TIMESTAMP_DOMAIN_HARDWARE_CLOCK, get_frame_number = n,
     frame_data = Video \<lparr>get_width = 1, get_height = 1, get_bytes_per_pixel = 3,
                          get_data = [10, 20, 30]\<rparr>\<rparr>"

definition two_points :: "(vertex \<times> texture_coordinate) list" where
  "two_points = [(\<lparr>vx = 1, vy = 2, vz = 3\<rparr>, \<lparr>tu = 2, tv = 2\<rparr>),
                 (\<lparr>vx = 4, vy = 5, vz = 6\<rparr>, \<lparr>tu = 1 / 2, tv = 1 / 2\<rparr>)]"


definition gyro_sample :: "nat \<Rightarrow> real \<Rightarrow> frame" where
  "gyro_sample n ts = \<lparr>stream_type = RS2_STREAM_GYRO, stream_index = 0,
     stream_format = RS2_FORMAT_MOTION_XYZ32F, get_timestamp = ts,
     get_frame_timestamp_domain = RS2_TIMESTAMP_DOMAIN_HARDWARE_CLOCK, get_frame_number = n,
     frame_data = Motion 0 0 1\<rparr>"

text \<open>
  A node that streams depth: the depth publishers are registered, the frame id and the
  camera info of the depth stream are set. It has no publisher for colour.
\<close>

definition streaming_node :: node where
  "streaming_node = new_node\<lparr>
     info_publisher := {DEPTH}, image_publishers := {DEPTH},
     optical_frame_id := [DEPTH \<mapsto> ''camera_depth_optical_frame''],
     camera_info_m := [DEPTH \<mapsto> \<lparr>info_frame_id = ''camera_depth_optical_frame'',
                                   info_stamp = 0, info_seq = 0\<rparr>]\<rparr>"

text \<open>
  The outside at a callback: the wall clock reads \<open>now\<close>, the filters pass the frames on,
  every image publisher has one subscriber.
\<close>

definition clock_env :: "real \<Rightarrow> callback_env" where
  "clock_env now = \<lparr>now_at_init = now, now_at_stamp = now,
     process = (\<lambda>nf fs. Inr fs),
     align_to = (\<lambda>st fs. Inl (Rs2_error ''no depth frame'')),
     info_subscribers = (\<lambda>ch k. 0), image_subscribers = (\<lambda>ch k. 1),
     pointcloud_subscribers = 1, imu_subscribers = (\<lambda>k. 1)\<rparr>"

text \<open>
  A device with three depth modes and one colour mode; depth is requested at 848 by 480
  at any rate, colour at 1920 by 1080 and 60 frames per second.
\<close>

definition image_streams :: "stream_index_pair list list" where
  "image_streams = [[DEPTH, INFRA1, INFRA2], [COLOR], [FISHEYE]]"

definition video_profile ::
  "stream_index_pair \<Rightarrow> rs2_format \<Rightarrow> int \<Rightarrow> int \<Rightarrow> int \<Rightarrow> stream_profile" where
  "video_profile k f w h r = \<lparr>profile_stream_type = fst k, profile_stream_index = snd k,
     profile_format = f, profile_width = w, profile_height = h, profile_fps = r\<rparr>"

definition device_profiles :: "stream_index_pair \<Rightarrow> stream_profile list" where
  "device_profiles k =
     (if k = DEPTH then
        [video_profile DEPTH RS2_FORMAT_Z16 640 480 30,
         video_profile DEPTH RS2_FORMAT_Z16 848 480 30,
         video_profile DEPTH RS2_FORMAT_Z16 848 480 60]
      else if k = COLOR then [video_profile COLOR RS2_FORMAT_RGB8 1280 720 30]
      else [])"

definition requesting_node :: node where
  "requesting_node = new_node\<lparr>
     width := (\<lambda>k. 0)(DEPTH := 848, COLOR := 1920),
     height := (\<lambda>k. 0)(DEPTH := 480, COLOR := 1080),
     fps := (\<lambda>k. 0)(COLOR := 60),
     enable := (\<lambda>k. k = DEPTH \<or> k = COLOR)\<rparr>"



text \<open>
  A node in synchronised mode with a motion publisher: before its first frame, and with the
  time base initialised at wall clock 10 and hardware time 1000.
\<close>

definition sync_start_node :: node where
  "sync_start_node = streaming_node\<lparr>sync_frames := True, imu_publishers := {GYRO}\<rparr>"

definition synced_node :: node where
  "synced_node = sync_start_node\<lparr>intialize_time_base := True, ros_time_base := 10,
     camera_time_base := 1000\<rparr>"





section \<open>Notions used in the statements\<close>

text \<open>
  The smoothing stages a request names, in the order requested: what a token of the request
  contributes to the middle of the pipeline.
\<close>

fun stage_of_token :: "string \<Rightarrow> named_filter list" where
  "stage_of_token tok =
     (if tok = ''spatial'' then [NamedFilter ''spatial'' Spatial_filter]
      else if tok = ''temporal'' then [NamedFilter ''temporal'' Temporal_filter]
      else if tok = ''decimation'' then [NamedFilter ''decimation'' Decimation_filter]
      else [])"

definition requested_stages :: "string list \<Rightarrow> named_filter list" where
  "requested_stages toks = concat (map stage_of_token toks)"

definition known_token :: "string \<Rightarrow> bool" where
  "known_token tok = (tok \<in> {''colorizer'', ''disparity'', ''spatial'', ''temporal'',
      ''decimation'', ''pointcloud'', []})"


text \<open>The time base, and the settings that no callback writes.\<close>

definition time_base_of :: "node \<Rightarrow> bool \<times> real \<times> real" where
  "time_base_of s = (intialize_time_base s, ros_time_base s, camera_time_base s)"

definition settings_of where
  "settings_of s = (sync_frames s, ros_time_offset s, align_depth s, filters s,
     pointcloud_texture s, encoding s, depth_aligned_encoding s, image_format s,
     is_frame_arrived s, counter_enabled s, image_publishers s,
     depth_aligned_info_publisher s, depth_aligned_image_publishers s)"

text \<open>
  One step of publishing with stamp \<open>t\<close>: the time base and the settings stay, the sets of
  info and motion publishers stay, and the outputs grow by messages stamped \<open>t\<close> and by log
  lines.
\<close>

definition step_ok :: "real \<Rightarrow> node \<Rightarrow> node \<Rightarrow> bool" where
  "step_ok t s s' =
     (time_base_of s' = time_base_of s \<and> settings_of s' = settings_of s \<and>
      info_publisher s' = info_publisher s \<and> imu_publishers s' = imu_publishers s \<and>
      (\<exists>new. outputs s' = outputs s @ new \<and> (\<forall>x \<in> set new. stamp_of x \<in> {None, Some t})))"

fun outcome_ok :: "real \<Rightarrow> node \<Rightarrow> outcome \<Rightarrow> bool" where
  "outcome_ok t s (Returns s') = step_ok t s s'"
| "outcome_ok t s (Throws ex s') = step_ok t s s'"
| "outcome_ok t s Aborts = True"

fun no_abort :: "outcome \<Rightarrow> bool" where
  "no_abort Aborts = False"
| "no_abort r = True"

text \<open>What \<^verbatim>\<open>publishFrame\<close> reads of the frame.\<close>

definition frame_width :: "frame \<Rightarrow> int" where
  "frame_width f = (case frame_data f of Video vf \<Rightarrow> get_width vf | _ \<Rightarrow> 0)"

definition frame_height :: "frame \<Rightarrow> int" where
  "frame_height f = (case frame_data f of Video vf \<Rightarrow> get_height vf | _ \<Rightarrow> 0)"

definition frame_bpp :: "frame \<Rightarrow> int" where
  "frame_bpp f = (case frame_data f of Video vf \<Rightarrow> get_bytes_per_pixel vf | _ \<Rightarrow> 1)"

text \<open>
  The node in the middle of \<^verbatim>\<open>publishFrame\<close>: the image buffer has taken the frame and
  the sequence counter is incremented.
\<close>

definition buffered_image :: "channel \<Rightarrow> frame \<Rightarrow> stream_index_pair \<Rightarrow> bool \<Rightarrow> node \<Rightarrow> mat" where
  "buffered_image ch f stream cp s =
     (if cp then
        (if (cols (images_of ch s stream), rows (images_of ch s stream))
              \<noteq> (frame_width f, frame_height f)
         then new_mat (frame_height f) (frame_width f) (image_format s stream)
         else images_of ch s stream)\<lparr>mat_data := data_of f\<rparr>
      else images_of ch s stream)"

definition counted :: "channel \<Rightarrow> frame \<Rightarrow> stream_index_pair \<Rightarrow> bool \<Rightarrow> node \<Rightarrow> node" where
  "counted ch f stream cp s =
     (let s1 = put_images ch ((images_of ch s)(stream := buffered_image ch f stream cp s)) s
      in put_seq ch ((seq_of ch s1)(stream := seq_of ch s1 stream + 1)) s1)"

text \<open>The node after \<^verbatim>\<open>publishFrame\<close> has published the two messages of a frame.\<close>

definition published :: "channel \<Rightarrow> frame \<Rightarrow> real \<Rightarrow> stream_index_pair \<Rightarrow> bool \<Rightarrow> node
    \<Rightarrow> string \<Rightarrow> string \<Rightarrow> camera_info \<Rightarrow> node" where
  "published ch f t stream cp s enc fid ci =
     (let s2 = counted ch f stream cp s;
          cam_info = ci\<lparr>info_stamp := t, info_seq := get_frame_number f\<rparr>;
          s3 = put_camera_info ch ((camera_info_of ch s2)(stream \<mapsto> cam_info)) s2
      in s3\<lparr>outputs := outputs s3 @
            [Info_published ch stream cam_info,
             Image_published ch stream
               \<lparr>img_encoding = enc, img_width = frame_width f, img_height = frame_height f,
                img_step = frame_width f * frame_bpp f, img_frame_id = fid, img_stamp = t,
                img_seq = get_frame_number f,
                img_data = mat_data (buffered_image ch f stream cp s)\<rparr>],
           send_counter := True\<rparr>)"

text \<open>The outputs of the node an outcome carries.\<close>

fun outputs_of :: "outcome \<Rightarrow> node_output list" where
  "outputs_of (Returns s) = outputs s"
| "outputs_of (Throws ex s) = outputs s"
| "outputs_of Aborts = []"



text \<open>The outputs grow by entries that satisfy a predicate.\<close>

definition grows_by :: "(node_output \<Rightarrow> bool) \<Rightarrow> node \<Rightarrow> node \<Rightarrow> bool" where
  "grows_by P s s' = (\<exists>new. outputs s' = outputs s @ new \<and> (\<forall>x \<in> set new. P x))"





text \<open>
  What the profile negotiation reads and writes of one stream key, with the warnings logged
  for that key.
\<close>

fun is_warning_for :: "stream_index_pair \<Rightarrow> node_output \<Rightarrow> bool" where
  "is_warning_for k (Warn_not_supported k' f w h r) = (k' = k)"
| "is_warning_for k x = False"

definition stream_view where
  "stream_view s k = (enable s k, format s k, width s k, height s k, fps s k,
     enabled_profiles s k, filter (is_warning_for k) (outputs s))"

section \<open>Properties of the configuration\<close>

lemmas stream_keys =
  COLOR_def DEPTH_def INFRA1_def INFRA2_def FISHEYE_def GYRO_def ACCEL_def

subsection \<open>Strings\<close>

lemma starts_with_iff: "starts_with s p \<longleftrightarrow> (\<exists>b. s = p @ b)"
  by (induction s p rule: starts_with.induct) auto

lemma string_find_iff: "string_find s p \<noteq> None \<longleftrightarrow> (\<exists>a b. s = a @ p @ b)"
proof (induction s)
  case Nil
  then show ?case by auto
next
  case (Cons c cs)
  show ?case
  proof (cases "starts_with (c # cs) p")
    case True
    then obtain b where "c # cs = p @ b" by (auto simp: starts_with_iff)
    then have "c # cs = [] @ p @ b" by simp
    with True show ?thesis by (metis string_find.simps(2) option.distinct(1))
  next
    case False
    have "(\<exists>a b. c # cs = a @ p @ b) \<longleftrightarrow> (\<exists>a b. cs = a @ p @ b)"
    proof
      assume "\<exists>a b. c # cs = a @ p @ b"
      then obtain a b where ab: "c # cs = a @ p @ b" by blast
      show "\<exists>a b. cs = a @ p @ b"
      proof (cases a)
        case Nil
        with ab False show ?thesis by (auto simp: starts_with_iff)
      next
        case (Cons x a')
        with ab show ?thesis by auto
      qed
    next
      assume "\<exists>a b. cs = a @ p @ b"
      then obtain a b where "cs = a @ p @ b" by blast
      then have "c # cs = (c # a) @ p @ b" by simp
      then show "\<exists>a b. c # cs = a @ p @ b" by blast
    qed
    with False Cons show ?thesis by simp
  qed
qed

lemma boost_split_nonempty: "boost_split p s \<noteq> []"
  by (induction s) (auto split: list.splits)

text \<open>The first token is a prefix of the input, and every token occurs in the input.\<close>

lemma boost_split_head: "boost_split p s = u # us \<Longrightarrow> \<exists>b. s = u @ b"
proof (induction s arbitrary: u us)
  case Nil
  then show ?case by simp
next
  case (Cons c cs)
  show ?case
  proof (cases "p c")
    case True
    with Cons.prems show ?thesis by auto
  next
    case False
    obtain v vs where split: "boost_split p cs = v # vs"
      using boost_split_nonempty by (cases "boost_split p cs") auto
    then obtain b where "cs = v @ b" using Cons.IH by blast
    with False split Cons.prems show ?thesis by auto
  qed
qed

lemma boost_split_infix:
  "t \<in> set (boost_split p s) \<Longrightarrow> \<exists>a b. s = a @ t @ b"
proof (induction s arbitrary: t)
  case Nil
  then show ?case by simp
next
  case (Cons c cs)
  show ?case
  proof (cases "p c")
    case True
    with Cons.prems have "t = [] \<or> t \<in> set (boost_split p cs)" by auto
    then show ?thesis
    proof
      assume "t = []"
      then have "c # cs = [] @ t @ (c # cs)" by simp
      then show ?thesis by blast
    next
      assume "t \<in> set (boost_split p cs)"
      then obtain a b where "cs = a @ t @ b" using Cons.IH by blast
      then have "c # cs = (c # a) @ t @ b" by simp
      then show ?thesis by blast
    qed
  next
    case False
    obtain u us where split: "boost_split p cs = u # us"
      using boost_split_nonempty by (cases "boost_split p cs") auto
    with False Cons.prems have "t = c # u \<or> t \<in> set us" by auto
    then show ?thesis
    proof
      assume t: "t = c # u"
      obtain b where "cs = u @ b" using boost_split_head [OF split] by blast
      then have "c # cs = [] @ t @ b" using t by simp
      then show ?thesis by blast
    next
      assume "t \<in> set us"
      then have "t \<in> set (boost_split p cs)" using split by simp
      then obtain a b where "cs = a @ t @ b" using Cons.IH by blast
      then have "c # cs = (c # a) @ t @ b" by simp
      then show ?thesis by blast
    qed
  qed
qed

lemma pointcloud_token_found:
  "''pointcloud'' \<in> set (boost_split p str) \<Longrightarrow> string_find str ''pointcloud'' \<noteq> None"
  using boost_split_infix string_find_iff by blast

subsection \<open>\<^verbatim>\<open>getParameters\<close>\<close>

lemma load_stream_params_keeps [simp]:
  "sync_frames (load_stream_params c ps kn s) = sync_frames s"
  "pointcloud (load_stream_params c ps kn s) = pointcloud s"
  "align_depth (load_stream_params c ps kn s) = align_depth s"
  "filters_str (load_stream_params c ps kn s) = filters_str s"
  by (simp_all add: load_stream_params_def Let_def)

lemma load_optical_frame_id_keeps [simp]:
  "sync_frames (load_optical_frame_id c ps kn s) = sync_frames s"
  "pointcloud (load_optical_frame_id c ps kn s) = pointcloud s"
  "align_depth (load_optical_frame_id c ps kn s) = align_depth s"
  "filters_str (load_optical_frame_id c ps kn s) = filters_str s"
  by (simp_all add: load_optical_frame_id_def)

lemma fold_keeps:
  assumes "\<And>x s. g (f x s) = g s"
  shows "g (fold f xs s) = g s"
  using assms by (induction xs arbitrary: s) simp_all

lemma fold_load_keeps [simp]:
  "sync_frames (fold (load_stream_params c ps) kns s) = sync_frames s"
  "pointcloud (fold (load_stream_params c ps) kns s) = pointcloud s"
  "align_depth (fold (load_stream_params c ps) kns s) = align_depth s"
  "filters_str (fold (load_stream_params c ps) kns s) = filters_str s"
  "sync_frames (fold (load_optical_frame_id c ps) kns s) = sync_frames s"
  "pointcloud (fold (load_optical_frame_id c ps) kns s) = pointcloud s"
  "align_depth (fold (load_optical_frame_id c ps) kns s) = align_depth s"
  "filters_str (fold (load_optical_frame_id c ps) kns s) = filters_str s"
  by (rule fold_keeps, simp)+

lemma forced_sync_fields [simp]:
  "sync_frames (if b then s\<lparr>sync_frames := True\<rparr> else s) = (b \<or> sync_frames s)"
  "pointcloud (if b then s\<lparr>sync_frames := True\<rparr> else s) = pointcloud s"
  "align_depth (if b then s\<lparr>sync_frames := True\<rparr> else s) = align_depth s"
  "filters_str (if b then s\<lparr>sync_frames := True\<rparr> else s) = filters_str s"
  by simp_all

lemma getParameters_flags:
  assumes "getParameters c ps s = Inr s'"
  shows "align_depth s' = param (get_bool ps ''align_depth'') (ALIGN_DEPTH c)"
    and "filters_str s' = param (get_string ps ''filters'') (DEFAULT_FILTERS c)"
    and "pointcloud s' = (param (get_bool ps ''enable_pointcloud'') (POINTCLOUD c)
           \<or> string_find (param (get_string ps ''filters'') (DEFAULT_FILTERS c))
                ''pointcloud'' \<noteq> None)"
    and "sync_frames s' = (pointcloud s' \<or> align_depth s' \<or> filters_str s' \<noteq> []
           \<or> param (get_bool ps ''enable_sync'') (SYNC_FRAMES c))"
proof -
  obtain st where st: "rs2_string_to_stream
      (param (get_string ps ''pointcloud_texture_stream'') ''RS2_STREAM_COLOR'') = Inr st"
    using assms by (cases "rs2_string_to_stream
      (param (get_string ps ''pointcloud_texture_stream'') ''RS2_STREAM_COLOR'')")
      (simp_all add: getParameters_def Let_def)
  have s': "Inr s' = getParameters c ps s" using assms by simp
  show a: "align_depth s' = param (get_bool ps ''align_depth'') (ALIGN_DEPTH c)"
    using s' st by (simp add: getParameters_def Let_def)
  show f: "filters_str s' = param (get_string ps ''filters'') (DEFAULT_FILTERS c)"
    using s' st by (simp add: getParameters_def Let_def)
  show p: "pointcloud s' = (param (get_bool ps ''enable_pointcloud'') (POINTCLOUD c)
           \<or> string_find (param (get_string ps ''filters'') (DEFAULT_FILTERS c))
                ''pointcloud'' \<noteq> None)"
    using s' st by (simp add: getParameters_def Let_def)
  have "sync_frames s' =
      ((param (get_bool ps ''enable_pointcloud'') (POINTCLOUD c)
        \<or> string_find (param (get_string ps ''filters'') (DEFAULT_FILTERS c))
                ''pointcloud'' \<noteq> None)
       \<or> param (get_bool ps ''align_depth'') (ALIGN_DEPTH c)
       \<or> param (get_string ps ''filters'') (DEFAULT_FILTERS c) \<noteq> []
       \<or> param (get_bool ps ''enable_sync'') (SYNC_FRAMES c))"
    using s' st by (simp add: getParameters_def Let_def disj_assoc)
  then show "sync_frames s' = (pointcloud s' \<or> align_depth s' \<or> filters_str s' \<noteq> []
           \<or> param (get_bool ps ''enable_sync'') (SYNC_FRAMES c))"
    by (simp only: a f p)
qed

text \<open>The function returns whenever the texture stream is one of the four known names.\<close>

lemma getParameters_returns:
  assumes "rs2_string_to_stream
             (param (get_string ps ''pointcloud_texture_stream'') ''RS2_STREAM_COLOR'') = Inr st"
  shows "\<exists>s'. getParameters c ps s = Inr s'"
  using assms by (simp add: getParameters_def Let_def)

text \<open>
  Claim C10. After \<^verbatim>\<open>getParameters\<close>, frame synchronisation is on whenever the point
  cloud is enabled, depth alignment is enabled, or the filter string is not empty, whatever
  the parameter \<^verbatim>\<open>enable_sync\<close> says; the parameter (or its default) decides only when
  all three are absent. The point-cloud flag is the parameter \<^verbatim>\<open>enable_pointcloud\<close> or an
  occurrence of \<^verbatim>\<open>pointcloud\<close> in the filter string, so a token \<^verbatim>\<open>pointcloud\<close> in the
  request sets it.
\<close>

theorem getParameters_forces_sync:
  assumes "getParameters c ps s = Inr s'"
  shows "(pointcloud s' \<or> align_depth s' \<or> filters_str s' \<noteq> [] \<longrightarrow> sync_frames s') \<and>
         (\<not> pointcloud s' \<and> \<not> align_depth s' \<and> filters_str s' = []
            \<longrightarrow> sync_frames s' = param (get_bool ps ''enable_sync'') (SYNC_FRAMES c)) \<and>
         align_depth s' = param (get_bool ps ''align_depth'') (ALIGN_DEPTH c) \<and>
         filters_str s' = param (get_string ps ''filters'') (DEFAULT_FILTERS c) \<and>
         pointcloud s' = (param (get_bool ps ''enable_pointcloud'') (POINTCLOUD c)
                          \<or> string_find (filters_str s') ''pointcloud'' \<noteq> None) \<and>
         (''pointcloud'' \<in> set (boost_split (\<lambda>ch. ch = CHR '','') (filters_str s'))
            \<longrightarrow> pointcloud s')"
proof -
  note fl = getParameters_flags [OF assms]
  have tok: "''pointcloud'' \<in> set (boost_split (\<lambda>ch. ch = CHR '','') (filters_str s'))
            \<longrightarrow> pointcloud s'"
    using pointcloud_token_found [of "\<lambda>ch. ch = CHR '',''" "filters_str s'"] fl(2,3)
    by simp
  have p: "pointcloud s' = (param (get_bool ps ''enable_pointcloud'') (POINTCLOUD c)
                          \<or> string_find (filters_str s') ''pointcloud'' \<noteq> None)"
    using fl(2,3) by simp
  from fl(4) have s1: "pointcloud s' \<or> align_depth s' \<or> filters_str s' \<noteq> [] \<longrightarrow> sync_frames s'"
    by blast
  from fl(4) have s2: "\<not> pointcloud s' \<and> \<not> align_depth s' \<and> filters_str s' = []
            \<longrightarrow> sync_frames s' = param (get_bool ps ''enable_sync'') (SYNC_FRAMES c)"
    by blast
  from s1 s2 fl(1) fl(2) p tok show ?thesis by blast
qed

theorem getParameters_forces_sync_witness:
  "\<exists>s'. getParameters all_off temporal_pointcloud_request new_node = Inr s' \<and>
        param (get_bool temporal_pointcloud_request ''enable_sync'') (SYNC_FRAMES all_off) = False \<and>
        filters_str s' = ''temporal,pointcloud'' \<and>
        ''pointcloud'' \<in> set (boost_split (\<lambda>ch. ch = CHR '','') (filters_str s')) \<and>
        pointcloud s' \<and> sync_frames s'"
proof -
  have "rs2_string_to_stream (param (get_string temporal_pointcloud_request
          ''pointcloud_texture_stream'') ''RS2_STREAM_COLOR'') = Inr RS2_STREAM_COLOR"
    by (simp add: temporal_pointcloud_request_def param_def rs2_string_to_stream_def)
  then obtain s' where s': "getParameters all_off temporal_pointcloud_request new_node = Inr s'"
    using getParameters_returns by blast
  have f: "param (get_string temporal_pointcloud_request ''filters'') (DEFAULT_FILTERS all_off)
           = ''temporal,pointcloud''"
    by (simp add: temporal_pointcloud_request_def param_def)
  have e: "param (get_bool temporal_pointcloud_request ''enable_sync'') (SYNC_FRAMES all_off)
           = False"
    by (simp add: temporal_pointcloud_request_def param_def)
  have t: "''pointcloud'' \<in> set (boost_split (\<lambda>ch. ch = CHR '','') ''temporal,pointcloud'')"
    by simp
  from getParameters_forces_sync [OF s'] f e t s' show ?thesis by auto
qed


subsection \<open>\<^verbatim>\<open>setupFilters\<close>\<close>

lemma filters_loop_result:
  "filters_loop nd toks d c s = Inr (d', c', s') \<Longrightarrow>
   d' = (d \<or> ''disparity'' \<in> set toks) \<and> c' = (c \<or> ''colorizer'' \<in> set toks) \<and>
   s' = s\<lparr>filters := filters s @ requested_stages toks\<rparr>"
proof (induction toks arbitrary: d c s)
  case Nil
  then show ?case by (simp add: requested_stages_def)
next
  case (Cons tok toks)
  show ?case
    using Cons.prems
    by (auto simp: requested_stages_def split: if_splits dest!: Cons.IH)
qed

lemma filters_loop_returns:
  "\<forall>tok \<in> set toks. known_token tok \<Longrightarrow> ''pointcloud'' \<in> set toks \<longrightarrow> nd \<or> pointcloud s \<Longrightarrow>
   \<exists>r. filters_loop nd toks d c s = Inr r"
proof (induction toks arbitrary: d c s)
  case Nil
  then show ?case by simp
next
  case (Cons tok toks)
  have pc: "\<And>s'. pointcloud s' = pointcloud s \<Longrightarrow> ''pointcloud'' \<in> set toks \<longrightarrow> nd \<or> pointcloud s'"
    using Cons.prems(2) by simp
  have kn: "\<forall>tok \<in> set toks. known_token tok" using Cons.prems(1) by simp
  have k: "known_token tok" using Cons.prems(1) by simp
  show ?case
    using k Cons.prems(2) Cons.IH [OF kn pc]
    by (auto simp: known_token_def)
qed

lemma add_disparity_fields [simp]:
  "filters (add_disparity s) =
     NamedFilter ''disparity_start'' (Disparity_transform True) # filters s
       @ [NamedFilter ''disparity_end'' (Disparity_transform False)]"
  "pointcloud (add_disparity s) = pointcloud s"
  "pointcloud_texture (add_disparity s) = pointcloud_texture s"
  "format (add_disparity s) = format s"
  "image_format (add_disparity s) = image_format s"
  "encoding (add_disparity s) = encoding s"
  "unit_step_size (add_disparity s) = unit_step_size s"
  by (simp_all add: add_disparity_def)

lemma add_colorizer_fields [simp]:
  "filters (add_colorizer s) = filters s @ [NamedFilter ''colorizer'' Colorizer]"
  "pointcloud (add_colorizer s) = pointcloud s"
  "pointcloud_texture (add_colorizer s) = pointcloud_texture s"
  "format (add_colorizer s) = (format s)(DEPTH := format s COLOR)"
  "image_format (add_colorizer s) = (image_format s)(DEPTH := image_format s COLOR)"
  "encoding (add_colorizer s) = (encoding s)(COLOR \<mapsto> index_or [] (encoding s) COLOR,
                                              DEPTH \<mapsto> index_or [] (encoding s) COLOR)"
  "unit_step_size (add_colorizer s) = (unit_step_size s)(DEPTH := unit_step_size s COLOR)"
  "width (add_colorizer s) = (width s)(DEPTH := width s COLOR)"
  "height (add_colorizer s) = (height s)(DEPTH := height s COLOR)"
  "image_m (add_colorizer s) = (image_m s)(DEPTH :=
      new_mat (height s COLOR) (width s COLOR) (image_format s COLOR))"
  by (simp_all add: add_colorizer_def Let_def)

lemma add_pointcloud_fields [simp]:
  "filters (add_pointcloud s) = filters s @ [NamedFilter ''pointcloud''
         (Pointcloud (fst (pointcloud_texture s)) (snd (pointcloud_texture s)))]"
  "format (add_pointcloud s) = format s"
  "image_format (add_pointcloud s) = image_format s"
  "encoding (add_pointcloud s) = encoding s"
  "unit_step_size (add_pointcloud s) = unit_step_size s"
  "image_m (add_pointcloud s) = image_m s"
  by (simp_all add: add_pointcloud_def)

lemma setupFilters_unfold:
  assumes "setupFilters nd s = Inr s'"
  defines "toks \<equiv> boost_split (\<lambda>c. c = CHR '','') (filters_str s)"
  defines "s1 \<equiv> s\<lparr>filters := filters s @ requested_stages toks\<rparr>"
  defines "s2 \<equiv> (if ''disparity'' \<in> set toks then add_disparity s1 else s1)"
  defines "s3 \<equiv> (if ''colorizer'' \<in> set toks then add_colorizer s2 else s2)"
  shows "s' = (if pointcloud s then add_pointcloud s3 else s3)"
proof -
  from assms(1) obtain d c r where loop: "filters_loop nd toks False False s = Inr (d, c, r)"
    unfolding setupFilters_def toks_def by (auto split: sum.splits)
  from filters_loop_result [OF loop]
  have d: "d = (''disparity'' \<in> set toks)" and c: "c = (''colorizer'' \<in> set toks)"
    and r: "r = s1" by (simp_all add: s1_def)
  have pc3: "pointcloud s3 = pointcloud s" by (simp add: s3_def s2_def s1_def)
  have "Inr s' = setupFilters nd s" using assms(1) by simp
  also have "\<dots> = Inr (if pointcloud s3 then add_pointcloud s3 else s3)"
    unfolding setupFilters_def toks_def [symmetric] loop
    by (simp add: Let_def s3_def s2_def d c r)
  finally show ?thesis using pc3 by simp
qed

text \<open>
  Claim C4, as amended. When \<^verbatim>\<open>setupFilters\<close> accepts the request and starts from an empty
  pipeline, the pipeline is: the depth-to-disparity transform if \<^verbatim>\<open>disparity\<close> was
  requested anywhere, then the spatial, temporal and decimation stages in the order
  requested, then the disparity-to-depth transform if \<^verbatim>\<open>disparity\<close> was requested, then
  the colorizer if requested, then the point-cloud stage if the point cloud is enabled. So
  the disparity-to-depth transform is behind the smoothing stages, and it is last only
  when neither the colorizer nor the point cloud follows.
\<close>

theorem setupFilters_order:
  assumes "setupFilters nd s = Inr s'" and "filters s = []"
  shows "filters s' =
     (if ''disparity'' \<in> set (boost_split (\<lambda>c. c = CHR '','') (filters_str s))
      then [NamedFilter ''disparity_start'' (Disparity_transform True)] else [])
     @ requested_stages (boost_split (\<lambda>c. c = CHR '','') (filters_str s))
     @ (if ''disparity'' \<in> set (boost_split (\<lambda>c. c = CHR '','') (filters_str s))
        then [NamedFilter ''disparity_end'' (Disparity_transform False)] else [])
     @ (if ''colorizer'' \<in> set (boost_split (\<lambda>c. c = CHR '','') (filters_str s))
        then [NamedFilter ''colorizer'' Colorizer] else [])
     @ (if pointcloud s
        then [NamedFilter ''pointcloud''
                (Pointcloud (fst (pointcloud_texture s)) (snd (pointcloud_texture s)))]
        else [])"
  unfolding setupFilters_unfold [OF assms(1)] using assms(2) by simp

lemma setupFilters_returns:
  assumes "\<forall>tok \<in> set (boost_split (\<lambda>c. c = CHR '','') (filters_str s)). known_token tok"
    and "''pointcloud'' \<in> set (boost_split (\<lambda>c. c = CHR '','') (filters_str s))
         \<longrightarrow> nd \<or> pointcloud s"
  shows "\<exists>s'. setupFilters nd s = Inr s'"
proof -
  obtain r where "filters_loop nd (boost_split (\<lambda>c. c = CHR '','') (filters_str s))
      False False s = Inr r"
    using filters_loop_returns [OF assms] by blast
  then show ?thesis by (cases r) (simp add: setupFilters_def Let_def)
qed

lemma temporal_disparity_spatial_tokens:
  "boost_split (\<lambda>c. c = CHR '','') (filters_str temporal_disparity_spatial_node)
     = [''temporal'', ''disparity'', ''spatial'']"
  by (simp add: temporal_disparity_spatial_node_def)

theorem setupFilters_order_witness:
  "\<exists>s'. setupFilters False temporal_disparity_spatial_node = Inr s' \<and>
        filters temporal_disparity_spatial_node = [] \<and>
        filters s' = [NamedFilter ''disparity_start'' (Disparity_transform True),
                      NamedFilter ''temporal'' Temporal_filter,
                      NamedFilter ''spatial'' Spatial_filter,
                      NamedFilter ''disparity_end'' (Disparity_transform False)]"
proof -
  have pc: "\<not> pointcloud temporal_disparity_spatial_node"
    and fs: "filters temporal_disparity_spatial_node = []"
    by (simp_all add: temporal_disparity_spatial_node_def new_node_def BaseRealSenseNode_def
          zero_node_def)
  obtain s' where s': "setupFilters False temporal_disparity_spatial_node = Inr s'"
    using setupFilters_returns [of temporal_disparity_spatial_node False]
    by (auto simp: temporal_disparity_spatial_tokens known_token_def)
  from setupFilters_order [OF s' fs] pc fs s' show ?thesis
    by (simp add: temporal_disparity_spatial_tokens requested_stages_def)
qed

text \<open>
  The request \<^verbatim>\<open>disparity,colorizer\<close>: the disparity-to-depth transform is not at the back
  of the pipeline, the colorizer is.
\<close>

theorem disparity_end_not_last:
  "map_sum id (\<lambda>s'. map filter_name (filters s')) (setupFilters False disparity_colorizer_node)
     = Inr [''disparity_start'', ''disparity_end'', ''colorizer'']"
  by (simp add: setupFilters_def disparity_colorizer_node_def new_node_def
        BaseRealSenseNode_def zero_node_def add_disparity_def add_colorizer_def
        NamedFilter_def Let_def)

section \<open>Properties of the callbacks\<close>

subsection \<open>Publishing keeps the time base and the settings\<close>

lemma step_ok_refl [simp]: "step_ok t s s"
  by (simp add: step_ok_def)

lemma step_ok_trans: "step_ok t s s1 \<Longrightarrow> step_ok t s1 s2 \<Longrightarrow> step_ok t s s2"
  unfolding step_ok_def by auto

lemma outcome_ok_trans: "step_ok t s s1 \<Longrightarrow> outcome_ok t s1 r \<Longrightarrow> outcome_ok t s r"
  by (cases r) (auto intro: step_ok_trans)

lemma and_then_ok:
  assumes "outcome_ok t s r" and "\<And>s1. step_ok t s s1 \<Longrightarrow> outcome_ok t s1 (k s1)"
  shows "outcome_ok t s (and_then r k)"
proof (cases r)
  case (Returns s1)
  with assms show ?thesis by (auto intro: outcome_ok_trans)
qed (use assms in auto)

lemma put_fields [simp]:
  "imu_publishers (put_images ch m s) = imu_publishers s"
  "imu_publishers (put_seq ch n s) = imu_publishers s"
  "imu_publishers (put_camera_info ch c s) = imu_publishers s"
  "info_publisher (put_images ch m s) = info_publisher s"
  "info_publisher (put_seq ch n s) = info_publisher s"
  "info_publisher (put_camera_info ch c s) = info_publisher s"
  "optical_frame_id (put_images ch m s) = optical_frame_id s"
  "optical_frame_id (put_seq ch n s) = optical_frame_id s"
  "optical_frame_id (put_camera_info ch c s) = optical_frame_id s"
  "time_base_of (put_images ch m s) = time_base_of s"
  "settings_of (put_images ch m s) = settings_of s"
  "outputs (put_images ch m s) = outputs s"
  "time_base_of (put_seq ch n s) = time_base_of s"
  "settings_of (put_seq ch n s) = settings_of s"
  "outputs (put_seq ch n s) = outputs s"
  "time_base_of (put_camera_info ch c s) = time_base_of s"
  "settings_of (put_camera_info ch c s) = settings_of s"
  "outputs (put_camera_info ch c s) = outputs s"
  by (cases ch; simp add: time_base_of_def settings_of_def)+

lemma time_base_of_updates [simp]:
  "time_base_of (s\<lparr>outputs := os\<rparr>) = time_base_of s"
  "time_base_of (s\<lparr>send_counter := b\<rparr>) = time_base_of s"
  "time_base_of (s\<lparr>image_counter := n\<rparr>) = time_base_of s"
  "time_base_of (s\<lparr>optical_frame_id := fi\<rparr>) = time_base_of s"
  "settings_of (s\<lparr>outputs := os\<rparr>) = settings_of s"
  "settings_of (s\<lparr>send_counter := b\<rparr>) = settings_of s"
  "settings_of (s\<lparr>image_counter := n\<rparr>) = settings_of s"
  "settings_of (s\<lparr>optical_frame_id := fi\<rparr>) = settings_of s"
  by (simp_all add: time_base_of_def settings_of_def)

lemma counted_fields [simp]:
  "time_base_of (counted ch f stream cp s) = time_base_of s"
  "settings_of (counted ch f stream cp s) = settings_of s"
  "info_publisher (counted ch f stream cp s) = info_publisher s"
  "imu_publishers (counted ch f stream cp s) = imu_publishers s"
  "outputs (counted ch f stream cp s) = outputs s"
  "optical_frame_id (counted ch f stream cp s) = optical_frame_id s"
  "encoding_of ch' (counted ch f stream cp s) = encoding_of ch' s"
  "camera_info_of ch' (counted ch f stream cp s) = camera_info_of ch' s"
  "info_publishers_of ch' (counted ch f stream cp s) = info_publishers_of ch' s"
  "image_publishers_of ch' (counted ch f stream cp s) = image_publishers_of ch' s"
  by (cases ch; cases ch'; simp add: counted_def Let_def time_base_of_def settings_of_def)+

lemma publishFrame_unfold:
  "publishFrame ch env f t stream cp s =
     (let s2 = counted ch f stream cp s in
      if stream \<notin> info_publishers_of ch s then Throws Out_of_range s2
      else if stream \<notin> image_publishers_of ch s then Throws Out_of_range s2
      else if info_subscribers env ch stream \<noteq> 0 \<or> image_subscribers env ch stream \<noteq> 0 then
        (case encoding_of ch s stream of
           None \<Rightarrow> Throws Out_of_range s2
         | Some enc \<Rightarrow>
            (case optical_frame_id s stream of
               None \<Rightarrow> Throws Out_of_range s2
             | Some fid \<Rightarrow>
                (case camera_info_of ch s stream of
                   None \<Rightarrow> Throws Out_of_range s2
                 | Some ci \<Rightarrow> Returns (published ch f t stream cp s enc fid ci))))
      else Returns s2)"
proof -
  have "publishFrame ch env f t stream cp s =
     (let s2 = counted ch f stream cp s in
      if stream \<notin> info_publishers_of ch s2 then Throws Out_of_range s2
      else if stream \<notin> image_publishers_of ch s2 then Throws Out_of_range s2
      else if info_subscribers env ch stream \<noteq> 0 \<or> image_subscribers env ch stream \<noteq> 0 then
        (case encoding_of ch s2 stream of
           None \<Rightarrow> Throws Out_of_range s2
         | Some enc \<Rightarrow>
            (case optical_frame_id s2 stream of
               None \<Rightarrow> Throws Out_of_range s2
             | Some fid \<Rightarrow>
                (case camera_info_of ch s2 stream of
                   None \<Rightarrow> Throws Out_of_range s2
                 | Some ci \<Rightarrow> Returns (published ch f t stream cp s enc fid ci))))
      else Returns s2)"
    unfolding publishFrame_def Let_def counted_def published_def buffered_image_def
      frame_width_def frame_height_def frame_bpp_def ..
  then show ?thesis by (simp add: Let_def cong: option.case_cong)
qed

lemma published_fields [simp]:
  "time_base_of (published ch f t stream cp s enc fid ci) = time_base_of s"
  "settings_of (published ch f t stream cp s enc fid ci) = settings_of s"
  "info_publisher (published ch f t stream cp s enc fid ci) = info_publisher s"
  "imu_publishers (published ch f t stream cp s enc fid ci) = imu_publishers s"
  "outputs (published ch f t stream cp s enc fid ci) = outputs s @
     [Info_published ch stream (ci\<lparr>info_stamp := t, info_seq := get_frame_number f\<rparr>),
      Image_published ch stream
        \<lparr>img_encoding = enc, img_width = frame_width f, img_height = frame_height f,
         img_step = frame_width f * frame_bpp f, img_frame_id = fid, img_stamp = t,
         img_seq = get_frame_number f,
         img_data = mat_data (buffered_image ch f stream cp s)\<rparr>]"
  by (simp_all add: published_def Let_def)

lemma publishFrame_ok: "outcome_ok t s (publishFrame ch env f t stream cp s)"
  by (simp add: publishFrame_unfold Let_def step_ok_def split: option.splits)

lemma build_pointcloud_ok: "outcome_ok t s (build_pointcloud ut tw th cd pc t s)"
  by (simp add: build_pointcloud_def Let_def step_ok_def)

lemma publishPointCloud_ok: "outcome_ok t s (publishPointCloud nd pc t frameset s)"
  by (auto simp: publishPointCloud_def Let_def build_pointcloud_ok
        split: option.splits frame_data.splits)

lemma publish_loop_ok: "outcome_ok t s (publish_loop nd cp env frameset t fs s)"
proof (induction fs arbitrary: s)
  case Nil
  then show ?case by simp
next
  case (Cons f fs)
  show ?case
    by (auto intro!: and_then_ok publishPointCloud_ok publishFrame_ok Cons.IH)
qed

lemma publishAlignedDepthToOthers_ok:
  "outcome_ok t s (publishAlignedDepthToOthers cp env frames fs t s)"
proof (induction fs arbitrary: s)
  case Nil
  then show ?case by simp
next
  case (Cons f fs)
  show ?case
    by (auto simp: Let_def intro!: and_then_ok publishFrame_ok Cons.IH split: sum.splits)
qed

lemma updateIsFrameArrived_ok: "step_ok t s (updateIsFrameArrived fs s)"
proof (induction fs arbitrary: s)
  case Nil
  then show ?case by simp
next
  case (Cons f fs)
  have "step_ok t s (s\<lparr>outputs := outputs s @ [ROS_ERROR ''Stream type is not supported!'']\<rparr>)"
    by (simp add: step_ok_def)
  then show ?case
    using Cons.IH by (auto intro: step_ok_trans simp: settings_of_def)
qed

lemma publish_counter_ok: "step_ok t s (publish_counter t s)"
  by (simp add: publish_counter_def step_ok_def)

subsection \<open>The time base\<close>

lemma init_time_base_flag [simp]: "intialize_time_base (init_time_base env frame s)"
  by (simp add: init_time_base_def Let_def)

lemma init_time_base_initialised:
  "intialize_time_base s \<Longrightarrow> init_time_base env frame s = s"
  by (simp add: init_time_base_def)

lemma init_time_base_origins:
  "\<not> intialize_time_base s \<Longrightarrow>
     ros_time_base (init_time_base env frame s) = now_at_init env \<and>
     camera_time_base (init_time_base env frame s) = get_timestamp (header frame)"
  by (simp add: init_time_base_def Let_def)


lemma init_time_base_fields [simp]:
  "settings_of (init_time_base env frame s) = settings_of s"
  "info_publisher (init_time_base env frame s) = info_publisher s"
  "imu_publishers (init_time_base env frame s) = imu_publishers s"
  "sync_frames (init_time_base env frame s) = sync_frames s"
  "ros_time_offset (init_time_base env frame s) = ros_time_offset s"
  by (simp_all add: init_time_base_def Let_def settings_of_def)

lemma init_time_base_outputs:
  "\<exists>new. outputs (init_time_base env frame s) = outputs s @ new \<and>
         (\<forall>x \<in> set new. stamp_of x = None)"
  by (simp add: init_time_base_def Let_def)

subsection \<open>The frame callback\<close>

lemma frame_callback_body_ok:
  "outcome_ok (frame_stamp env frame (init_time_base env frame s))
     (init_time_base env frame s) (frame_callback_body nd cp env frame s)"
proof -
  define s1 where "s1 = init_time_base env frame s"
  define t where "t = frame_stamp env frame s1"
  have tail: "\<And>s4. outcome_ok t s4 (Returns (publish_counter t s4))"
    by (simp add: publish_counter_ok)
  have main: "outcome_ok t s1
     (case frame of
        Frameset h frames \<Rightarrow>
          (let s2 = updateIsFrameArrived frames s1 in
           case apply_filters env (filters s2) frames of
             Inl ex \<Rightarrow> Throws ex s2
           | Inr frameset \<Rightarrow>
              (let d = dedup_loop (align_depth s2) frameset dedup_init in
               and_then (publish_loop nd cp env frameset t (frames_to_publish d) s2)
                 (\<lambda>s3. if align_depth s3 \<and> is_depth_arrived d
                       then publishAlignedDepthToOthers cp env frameset frameset t s3
                       else Returns s3)))
      | Single f \<Rightarrow> publishFrame Raw env f t (sip_of f) cp (updateIsFrameArrived [f] s1))"
  proof (cases frame)
    case (Single f)
    have "outcome_ok t s1 (publishFrame Raw env f t (sip_of f) cp (updateIsFrameArrived [f] s1))"
      by (rule outcome_ok_trans [OF updateIsFrameArrived_ok publishFrame_ok])
    with Single show ?thesis by simp
  next
    case (Frameset h frames)
    define s2 where "s2 = updateIsFrameArrived frames s1"
    have s2: "step_ok t s1 s2" unfolding s2_def by (rule updateIsFrameArrived_ok)
    have "outcome_ok t s2
       (case apply_filters env (filters s2) frames of
             Inl ex \<Rightarrow> Throws ex s2
           | Inr frameset \<Rightarrow>
              (let d = dedup_loop (align_depth s2) frameset dedup_init in
               and_then (publish_loop nd cp env frameset t (frames_to_publish d) s2)
                 (\<lambda>s3. if align_depth s3 \<and> is_depth_arrived d
                       then publishAlignedDepthToOthers cp env frameset frameset t s3
                       else Returns s3)))"
      by (auto simp: Let_def split: sum.splits
            intro!: and_then_ok publish_loop_ok publishAlignedDepthToOthers_ok)
    then have "outcome_ok t s1
       (case apply_filters env (filters s2) frames of
             Inl ex \<Rightarrow> Throws ex s2
           | Inr frameset \<Rightarrow>
              (let d = dedup_loop (align_depth s2) frameset dedup_init in
               and_then (publish_loop nd cp env frameset t (frames_to_publish d) s2)
                 (\<lambda>s3. if align_depth s3 \<and> is_depth_arrived d
                       then publishAlignedDepthToOthers cp env frameset frameset t s3
                       else Returns s3)))"
      by (rule outcome_ok_trans [OF s2])
    with Frameset show ?thesis unfolding s2_def Let_def by simp
  qed
  have "outcome_ok t s1 (frame_callback_body nd cp env frame s)"
    using and_then_ok [OF main tail]
    unfolding frame_callback_body_def Let_def s1_def t_def .
  then show ?thesis by (simp add: s1_def t_def)
qed

lemma frame_callback_never_throws: "frame_callback nd cp env frame s \<noteq> Throws ex s'"
  by (simp add: frame_callback_def split: outcome.splits)

lemma frame_callback_ok:
  "outcome_ok (frame_stamp env frame (init_time_base env frame s))
     (init_time_base env frame s) (frame_callback nd cp env frame s)"
proof (cases "frame_callback_body nd cp env frame s")
  case (Throws ex s1)
  with frame_callback_body_ok [of env frame s nd cp]
  have "step_ok (frame_stamp env frame (init_time_base env frame s))
          (init_time_base env frame s) s1" by simp
  moreover have "step_ok (frame_stamp env frame (init_time_base env frame s)) s1
     (s1\<lparr>outputs := outputs s1 @
            [ROS_ERROR (''An error has occurred during frame callback: '' @ what ex)]\<rparr>)"
    by (simp add: step_ok_def)
  ultimately show ?thesis using Throws
    by (auto simp: frame_callback_def intro: step_ok_trans)
qed (use frame_callback_body_ok [of env frame s nd cp] in \<open>simp_all add: frame_callback_def\<close>)

subsection \<open>No abort without assertions\<close>

lemma and_then_no_abort:
  "no_abort r \<Longrightarrow> (\<And>s. no_abort (k s)) \<Longrightarrow> no_abort (and_then r k)"
  by (cases r) simp_all

lemma publishFrame_no_abort [simp]: "no_abort (publishFrame ch env f t stream cp s)"
  by (simp add: publishFrame_unfold Let_def split: option.splits)

lemma publishPointCloud_no_abort: "nd \<Longrightarrow> no_abort (publishPointCloud nd pc t frameset s)"
  by (simp add: publishPointCloud_def build_pointcloud_def Let_def
        split: option.splits frame_data.splits)

lemma publish_loop_no_abort: "nd \<Longrightarrow> no_abort (publish_loop nd cp env frameset t fs s)"
  by (induction fs arbitrary: s)
     (auto intro!: and_then_no_abort publishPointCloud_no_abort)

lemma publishAlignedDepthToOthers_no_abort [simp]:
  "no_abort (publishAlignedDepthToOthers cp env frames fs t s)"
  by (induction fs arbitrary: s)
     (auto simp: Let_def intro!: and_then_no_abort split: sum.splits)

lemma frame_callback_body_no_abort:
  "nd \<Longrightarrow> no_abort (frame_callback_body nd cp env frame s)"
  unfolding frame_callback_body_def Let_def
  by (cases frame)
     (auto intro!: and_then_no_abort publish_loop_no_abort split: sum.splits)

lemma frame_callback_returns:
  assumes nd
  shows "\<exists>s'. frame_callback nd cp env frame s = Returns s'"
  using frame_callback_body_no_abort [OF assms, of cp env frame s]
  by (cases "frame_callback_body nd cp env frame s") (simp_all add: frame_callback_def)

subsection \<open>The motion callback and sessions\<close>

lemma imu_callback_dropped:
  "\<not> intialize_time_base s \<Longrightarrow> imu_callback env frame s = s"
  by (simp add: imu_callback_def)

lemma imu_callback_fields [simp]:
  "time_base_of (imu_callback env frame s) = time_base_of s"
  "settings_of (imu_callback env frame s) = settings_of s"
  by (simp_all add: imu_callback_def Let_def time_base_of_def settings_of_def)

lemma frame_callback_time_base:
  assumes "frame_callback nd cp env frame s = Returns s'"
  shows "time_base_of s' = time_base_of (init_time_base env frame s)"
    and "settings_of s' = settings_of s"
    and "imu_publishers s' = imu_publishers s"
  using frame_callback_ok [of env frame s nd cp] assms
  by (simp_all add: step_ok_def)

lemma step_event_settings:
  assumes "step_event nd cp e s = Returns s'"
  shows "settings_of s' = settings_of s"
  using assms by (cases e) (auto simp: frame_callback_time_base)

lemma step_event_initialised:
  assumes "step_event nd cp e s = Returns s'" and "intialize_time_base s"
  shows "time_base_of s' = time_base_of s"
  using assms
  by (cases e) (auto simp: frame_callback_time_base init_time_base_initialised)

lemma session_settings:
  "session nd cp es s = Returns s' \<Longrightarrow> settings_of s' = settings_of s"
proof (induction es arbitrary: s)
  case Nil
  then show ?case by simp
next
  case (Cons e es)
  then obtain s1 where e: "step_event nd cp e s = Returns s1"
    and rest: "session nd cp es s1 = Returns s'"
    by (cases "step_event nd cp e s") auto
  from Cons.IH [OF rest] step_event_settings [OF e] show ?case by simp
qed

lemma session_initialised:
  "session nd cp es s = Returns s' \<Longrightarrow> intialize_time_base s \<Longrightarrow>
   time_base_of s' = time_base_of s"
proof (induction es arbitrary: s)
  case Nil
  then show ?case by simp
next
  case (Cons e es)
  then obtain s1 where e: "step_event nd cp e s = Returns s1"
    and rest: "session nd cp es s1 = Returns s'"
    by (cases "step_event nd cp e s") auto
  have s1: "time_base_of s1 = time_base_of s"
    by (rule step_event_initialised [OF e Cons.prems(2)])
  then have "intialize_time_base s1"
    using Cons.prems(2) by (simp add: time_base_of_def)
  from Cons.IH [OF rest this] s1 show ?case by simp
qed

lemma session_uninitialised:
  "session nd cp es s = Returns s' \<Longrightarrow> \<not> intialize_time_base s \<Longrightarrow>
   (case first_frame_event es of
      None \<Rightarrow> s' = s
    | Some (env, frame) \<Rightarrow>
        time_base_of s' = (True, now_at_init env, get_timestamp (header frame)))"
proof (induction es arbitrary: s)
  case Nil
  then show ?case by simp
next
  case (Cons e es)
  then obtain s1 where e: "step_event nd cp e s = Returns s1"
    and rest: "session nd cp es s1 = Returns s'"
    by (cases "step_event nd cp e s") auto
  show ?case
  proof (cases e)
    case (Frame_event env frame)
    with e have "time_base_of s1 = time_base_of (init_time_base env frame s)"
      by (simp add: frame_callback_time_base)
    then have s1: "time_base_of s1 = (True, now_at_init env, get_timestamp (header frame))"
      using init_time_base_origins [OF Cons.prems(2), of env frame]
      by (simp add: time_base_of_def)
    then have "intialize_time_base s1" by (simp add: time_base_of_def)
    from session_initialised [OF rest this] s1 Frame_event show ?thesis by simp
  next
    case (Imu_event env frame)
    with e Cons.prems(2) have "s1 = s" by (simp add: imu_callback_dropped)
    with rest have "session nd cp es s = Returns s'" by simp
    from Cons.IH [OF this Cons.prems(2)] Imu_event show ?thesis by simp
  qed
qed

lemma session_returns:
  assumes nd
  shows "\<exists>s'. session nd cp es s = Returns s'"
proof (induction es arbitrary: s)
  case Nil
  then show ?case by simp
next
  case (Cons e es)
  have "\<exists>s1. step_event nd cp e s = Returns s1"
    by (cases e) (simp_all add: frame_callback_returns [OF assms])
  then show ?case using Cons.IH by auto
qed

text \<open>
  Claim C6. Over any session that starts with the time base initialised, the flag stays true
  and both origins keep their values. Over any session that starts with the time base not
  initialised, the first invocation of the frame callback sets the flag and records the
  origins (the wall clock read in that invocation and the hardware timestamp of its frame),
  and they are never written again; without such an invocation the flag stays false.
\<close>

theorem time_base_one_way:
  assumes "session nd cp es s = Returns s'"
  shows "(intialize_time_base s \<longrightarrow>
            intialize_time_base s' \<and> ros_time_base s' = ros_time_base s \<and>
            camera_time_base s' = camera_time_base s) \<and>
         (\<not> intialize_time_base s \<longrightarrow>
            (case first_frame_event es of
               None \<Rightarrow> \<not> intialize_time_base s'
             | Some (env, frame) \<Rightarrow>
                 intialize_time_base s' \<and> ros_time_base s' = now_at_init env \<and>
                 camera_time_base s' = get_timestamp (header frame)))"
proof -
  have a: "intialize_time_base s' \<and> ros_time_base s' = ros_time_base s \<and>
        camera_time_base s' = camera_time_base s" if "intialize_time_base s"
    using session_initialised [OF assms that] that by (simp add: time_base_of_def)
  have b: "case first_frame_event es of
          None \<Rightarrow> \<not> intialize_time_base s'
        | Some (env, frame) \<Rightarrow>
            intialize_time_base s' \<and> ros_time_base s' = now_at_init env \<and>
            camera_time_base s' = get_timestamp (header frame)" if "\<not> intialize_time_base s"
    using session_uninitialised [OF assms that] that
    by (auto simp: time_base_of_def split: option.splits)
  from a b show ?thesis by blast
qed

text \<open>
  Claim C7. No exception leaves the frame callback. When the body of its \<^verbatim>\<open>try\<close> block
  throws, the callback returns, the error is the last line of the log, the time base is
  initialised and the settings are those from before, and the session goes on with the next
  invocation from that node. With assertions compiled out the callback always returns.
\<close>

theorem frame_callback_catches:
  "(\<forall>ex s'. frame_callback nd cp env frame s \<noteq> Throws ex s') \<and>
   (nd \<longrightarrow> (\<exists>s'. frame_callback nd cp env frame s = Returns s')) \<and>
   (\<forall>ex s1. frame_callback_body nd cp env frame s = Throws ex s1 \<longrightarrow>
      (\<exists>s'. frame_callback nd cp env frame s = Returns s' \<and>
            outputs s' = outputs s1 @
              [ROS_ERROR (''An error has occurred during frame callback: '' @ what ex)] \<and>
            intialize_time_base s' \<and>
            time_base_of s' = time_base_of (init_time_base env frame s) \<and>
            settings_of s' = settings_of s \<and>
            (\<forall>es. session nd cp (Frame_event env frame # es) s = session nd cp es s')))"
proof (intro conjI allI impI)
  fix ex s'
  show "frame_callback nd cp env frame s \<noteq> Throws ex s'"
    by (rule frame_callback_never_throws)
next
  assume nd
  then show "\<exists>s'. frame_callback nd cp env frame s = Returns s'"
    by (rule frame_callback_returns)
next
  fix ex s1
  assume body: "frame_callback_body nd cp env frame s = Throws ex s1"
  define s' where "s' = s1\<lparr>outputs := outputs s1 @
      [ROS_ERROR (''An error has occurred during frame callback: '' @ what ex)]\<rparr>"
  have r: "frame_callback nd cp env frame s = Returns s'"
    using body by (simp add: frame_callback_def s'_def)
  have tb: "time_base_of s' = time_base_of (init_time_base env frame s)"
    and st: "settings_of s' = settings_of s"
    using frame_callback_time_base [OF r] by simp_all
  have "intialize_time_base s'" using tb by (simp add: time_base_of_def)
  with r tb st show "\<exists>s'. frame_callback nd cp env frame s = Returns s' \<and>
            outputs s' = outputs s1 @
              [ROS_ERROR (''An error has occurred during frame callback: '' @ what ex)] \<and>
            intialize_time_base s' \<and>
            time_base_of s' = time_base_of (init_time_base env frame s) \<and>
            settings_of s' = settings_of s \<and>
            (\<forall>es. session nd cp (Frame_event env frame # es) s = session nd cp es s')"
    by (auto simp: s'_def)
qed

subsection \<open>Before the time base is initialised\<close>

lemma updateIsFrameArrived_eq:
  "\<exists>new. updateIsFrameArrived fs s = s\<lparr>outputs := outputs s @ new\<rparr>"
proof (induction fs arbitrary: s)
  case Nil
  show ?case by (rule exI [of _ "[]"]) simp
next
  case (Cons f fs)
  define s0 where "s0 = (if sip_of f \<in> dom (is_frame_arrived s) then s
     else s\<lparr>outputs := outputs s @ [ROS_ERROR ''Stream type is not supported!'']\<rparr>)"
  obtain new0 where s0: "s0 = s\<lparr>outputs := outputs s @ new0\<rparr>"
  proof (cases "sip_of f \<in> dom (is_frame_arrived s)")
    case True
    then have "s0 = s\<lparr>outputs := outputs s @ []\<rparr>" by (simp add: s0_def)
    then show ?thesis by (rule that)
  next
    case False
    then have "s0 = s\<lparr>outputs := outputs s @ [ROS_ERROR ''Stream type is not supported!'']\<rparr>"
      by (simp add: s0_def)
    then show ?thesis by (rule that)
  qed
  obtain new where "updateIsFrameArrived fs s0 = s0\<lparr>outputs := outputs s0 @ new\<rparr>"
    using Cons.IH by blast
  then have "updateIsFrameArrived (f # fs) s = s\<lparr>outputs := outputs s @ (new0 @ new)\<rparr>"
    by (simp add: s0_def [symmetric]) (simp add: s0)
  then show ?case by blast
qed






subsection \<open>Concrete sessions\<close>

lemma streaming_node_fields:
  "\<not> intialize_time_base streaming_node"
  "\<not> sync_frames streaming_node"
  "info_publisher streaming_node = {DEPTH}"
  "image_publishers streaming_node = {DEPTH}"
  "encoding streaming_node DEPTH = Some TYPE_16UC1"
  "optical_frame_id streaming_node DEPTH = Some ''camera_depth_optical_frame''"
  "camera_info_m streaming_node DEPTH = Some \<lparr>info_frame_id = ''camera_depth_optical_frame'',
                                   info_stamp = 0, info_seq = 0\<rparr>"
  by (simp_all add: streaming_node_def new_node_def BaseRealSenseNode_def zero_node_def
        stream_keys)

lemma concrete_frames [simp]:
  "sip_of (depth_image n ts) = DEPTH"
  "sip_of (color_image n ts) = COLOR"
  "get_timestamp (depth_image n ts) = ts"
  "get_frame_number (depth_image n ts) = n"
  by (simp_all add: sip_of_def depth_image_def color_image_def stream_keys)

lemma clock_env_fields [simp]:
  "now_at_init (clock_env now) = now"
  "now_at_stamp (clock_env now) = now"
  "image_subscribers (clock_env now) ch k = 1"
  by (simp_all add: clock_env_def)

theorem time_base_one_way_witness:
  "(\<exists>s'. session True True
           [Imu_event (clock_env 5) (gyro_sample 1 990),
            Frame_event (clock_env 10) (Single (depth_image 1 1000)),
            Frame_event (clock_env 11) (Single (depth_image 2 1033))] streaming_node
         = Returns s' \<and>
         \<not> intialize_time_base streaming_node \<and>
         intialize_time_base s' \<and> ros_time_base s' = 10 \<and> camera_time_base s' = 1000) \<and>
   (\<exists>s'. session True True
           [Frame_event (clock_env 11) (Single (depth_image 2 1033))]
           (streaming_node\<lparr>intialize_time_base := True, ros_time_base := 10,
              camera_time_base := 1000\<rparr>)
         = Returns s' \<and>
         intialize_time_base s' \<and> ros_time_base s' = 10 \<and> camera_time_base s' = 1000)"
proof -
  obtain s1 where s1: "session True True
           [Imu_event (clock_env 5) (gyro_sample 1 990),
            Frame_event (clock_env 10) (Single (depth_image 1 1000)),
            Frame_event (clock_env 11) (Single (depth_image 2 1033))] streaming_node
         = Returns s1"
    using session_returns [of True] by blast
  obtain s2 where s2: "session True True
           [Frame_event (clock_env 11) (Single (depth_image 2 1033))]
           (streaming_node\<lparr>intialize_time_base := True, ros_time_base := 10,
              camera_time_base := 1000\<rparr>)
         = Returns s2"
    using session_returns [of True] by blast
  from time_base_one_way [OF s1] streaming_node_fields(1)
  have a: "intialize_time_base s1 \<and> ros_time_base s1 = 10 \<and> camera_time_base s1 = 1000"
    by simp
  from time_base_one_way [OF s2]
  have b: "intialize_time_base s2 \<and> ros_time_base s2 = 10 \<and> camera_time_base s2 = 1000"
    by simp
  have "\<exists>s'. session True True
           [Imu_event (clock_env 5) (gyro_sample 1 990),
            Frame_event (clock_env 10) (Single (depth_image 1 1000)),
            Frame_event (clock_env 11) (Single (depth_image 2 1033))] streaming_node
         = Returns s' \<and>
         \<not> intialize_time_base streaming_node \<and>
         intialize_time_base s' \<and> ros_time_base s' = 10 \<and> camera_time_base s' = 1000"
    by (rule exI [of _ s1])
       (intro conjI s1 streaming_node_fields(1) a [THEN conjunct1]
          a [THEN conjunct2, THEN conjunct1] a [THEN conjunct2, THEN conjunct2])
  moreover have "\<exists>s'. session True True
           [Frame_event (clock_env 11) (Single (depth_image 2 1033))]
           (streaming_node\<lparr>intialize_time_base := True, ros_time_base := 10,
              camera_time_base := 1000\<rparr>)
         = Returns s' \<and>
         intialize_time_base s' \<and> ros_time_base s' = 10 \<and> camera_time_base s' = 1000"
    by (rule exI [of _ s2])
       (intro conjI s2 b [THEN conjunct1]
          b [THEN conjunct2, THEN conjunct1] b [THEN conjunct2, THEN conjunct2])
  ultimately show ?thesis by (rule conjI)
qed

theorem frame_callback_catches_witness:
  "\<exists>s1 s'. frame_callback_body False True (clock_env 10) (Single (color_image 1 1000))
             streaming_node = Throws Out_of_range s1 \<and>
           frame_callback False True (clock_env 10) (Single (color_image 1 1000))
             streaming_node = Returns s' \<and>
           outputs s' = outputs s1 @
             [ROS_ERROR ''An error has occurred during frame callback: map::at''] \<and>
           intialize_time_base s' \<and>
           session False True [Frame_event (clock_env 10) (Single (color_image 1 1000)),
                               Frame_event (clock_env 11) (Single (depth_image 2 1033))]
               streaming_node
             = session False True [Frame_event (clock_env 11) (Single (depth_image 2 1033))] s'"
proof -
  define u where "u = updateIsFrameArrived [color_image 1 1000]
      (init_time_base (clock_env 10) (Single (color_image 1 1000)) streaming_node)"
  define s1 where "s1 = counted Raw (color_image 1 1000) COLOR True u"
  obtain new where new: "u = init_time_base (clock_env 10) (Single (color_image 1 1000))
      streaming_node\<lparr>outputs := outputs (init_time_base (clock_env 10)
        (Single (color_image 1 1000)) streaming_node) @ new\<rparr>"
    unfolding u_def using updateIsFrameArrived_eq by blast
  have "COLOR \<notin> info_publisher u"
    by (simp add: new streaming_node_fields stream_keys)
  then have body: "frame_callback_body False True (clock_env 10) (Single (color_image 1 1000))
      streaming_node = Throws Out_of_range s1"
    unfolding frame_callback_body_def Let_def u_def s1_def
    by (simp add: publishFrame_unfold Let_def del: updateIsFrameArrived.simps)
  note inst = frame_callback_catches [of False True "clock_env 10"
      "Single (color_image 1 1000)" streaming_node]
  from inst [THEN conjunct2, THEN conjunct2, rule_format, OF body]
  obtain s' where r: "frame_callback False True (clock_env 10) (Single (color_image 1 1000))
             streaming_node = Returns s'"
    and o: "outputs s' = outputs s1 @
              [ROS_ERROR (''An error has occurred during frame callback: '' @ what Out_of_range)]"
    and i: "intialize_time_base s'"
    and n: "\<forall>es. session False True
               (Frame_event (clock_env 10) (Single (color_image 1 1000)) # es) streaming_node
             = session False True es s'"
    by blast
  from o have o': "outputs s' = outputs s1 @
             [ROS_ERROR ''An error has occurred during frame callback: map::at'']" by simp
  from n have n': "session False True [Frame_event (clock_env 10) (Single (color_image 1 1000)),
                               Frame_event (clock_env 11) (Single (depth_image 2 1033))]
               streaming_node
             = session False True [Frame_event (clock_env 11) (Single (depth_image 2 1033))] s'"
    by (rule spec)
  show ?thesis
    by (rule exI [of _ s1], rule exI [of _ s']) (intro conjI body r o' i n')
qed



subsection \<open>Stamps of the two callbacks\<close>

lemma imu_callback_stamps:
  "\<exists>new. outputs (imu_callback env motion s) = outputs s @ new \<and>
     (\<forall>x \<in> set new. stamp_of x
        = Some (ros_time_base s + (get_timestamp motion - camera_time_base s) / 1000))"
proof (cases "outputs (imu_callback env motion s) = outputs s")
  case True
  then have "outputs (imu_callback env motion s) = outputs s @ []" by simp
  then show ?thesis by (intro exI [of _ "[]"]) simp
next
  case False
  then obtain sip imu where
    "outputs (imu_callback env motion s) = outputs s @ [Imu_published sip imu]"
    "imu_stamp imu = ros_time_base s + (get_timestamp motion - camera_time_base s) / 1000"
    by (auto simp: imu_callback_def Let_def split: if_splits)
  then show ?thesis by (intro exI [of _ "[Imu_published sip imu]"]) simp
qed

lemma imu_callback_publishes:
  assumes "intialize_time_base s"
    and "(if stream_type motion = fst GYRO then GYRO else ACCEL) \<in> imu_publishers s"
    and "imu_subscribers env (if stream_type motion = fst GYRO then GYRO else ACCEL) \<noteq> 0"
  shows "outputs (imu_callback env motion s) \<noteq> outputs s"
  using assms by (auto simp: imu_callback_def Let_def)

lemma imu_callback_publishers: "imu_publishers s \<subseteq> imu_publishers (imu_callback env motion s)"
  by (auto simp: imu_callback_def Let_def)

lemma session_imu_publishers:
  "session nd cp es s = Returns s' \<Longrightarrow> imu_publishers s \<subseteq> imu_publishers s'"
proof (induction es arbitrary: s)
  case Nil
  then show ?case by simp
next
  case (Cons e es)
  then obtain s1 where e: "step_event nd cp e s = Returns s1"
    and rest: "session nd cp es s1 = Returns s'"
    by (cases "step_event nd cp e s") auto
  have "imu_publishers s \<subseteq> imu_publishers s1"
  proof (cases e)
    case (Frame_event env frame)
    with e show ?thesis by (simp add: frame_callback_time_base(3))
  next
    case (Imu_event env frame)
    with e imu_callback_publishers [of s env frame] show ?thesis by auto
  qed
  with Cons.IH [OF rest] show ?case by blast
qed

text \<open>
  Claim C2, as amended. Let the time base be initialised by the first frame of a session,
  with hardware origin \<open>T0\<close> (the timestamp of that frame, in milliseconds) and wall-clock
  origin \<open>W0\<close> (the clock read in that invocation). Every message that a later invocation
  of the frame callback publishes for a frame with timestamp \<open>T1\<close> is stamped
  \<open>W0 + (T1 - T0) / 1000\<close> seconds when synchronised publishing is off, and with the wall
  clock read in that invocation plus the configured offset when it is on. Every message that
  the motion callback publishes for a motion frame with timestamp \<open>T1\<close> is stamped
  \<open>W0 + (T1 - T0) / 1000\<close> seconds in both modes, and it publishes one whenever the stream
  of the frame has a publisher with a subscriber.
\<close>

theorem stamps_from_time_base:
  assumes "session nd cp es s0 = Returns s" and "\<not> intialize_time_base s0"
    and "first_frame_event es = Some (env0, frame0)"
  shows "(\<forall>s'. frame_callback nd cp env frame s = Returns s' \<longrightarrow>
            (\<exists>new. outputs s' = outputs s @ new \<and>
               (\<forall>x \<in> set new. stamp_of x = None \<or>
                  stamp_of x = Some
                    (if sync_frames s then now_at_stamp env + ros_time_offset s
                     else now_at_init env0
                          + (get_timestamp (header frame) - get_timestamp (header frame0)) / 1000)))) \<and>
         (\<exists>new. outputs (imu_callback env' motion s) = outputs s @ new \<and>
            (\<forall>x \<in> set new. stamp_of x = Some
               (now_at_init env0
                + (get_timestamp motion - get_timestamp (header frame0)) / 1000)) \<and>
            ((if stream_type motion = fst GYRO then GYRO else ACCEL) \<in> imu_publishers s \<and>
             imu_subscribers env' (if stream_type motion = fst GYRO then GYRO else ACCEL) \<noteq> 0
               \<longrightarrow> new \<noteq> []))"
proof -
  from session_uninitialised [OF assms(1,2)] assms(3)
  have tb: "time_base_of s = (True, now_at_init env0, get_timestamp (header frame0))"
    by simp
  then have flag: "intialize_time_base s" and w: "ros_time_base s = now_at_init env0"
    and c: "camera_time_base s = get_timestamp (header frame0)"
    by (simp_all add: time_base_of_def)
  have init: "init_time_base env frame s = s"
    by (rule init_time_base_initialised [OF flag])
  have t: "frame_stamp env frame s =
      (if sync_frames s then now_at_stamp env + ros_time_offset s
       else now_at_init env0
            + (get_timestamp (header frame) - get_timestamp (header frame0)) / 1000)"
    by (simp add: frame_stamp_def w c)
  have a: "\<exists>new. outputs s' = outputs s @ new \<and>
               (\<forall>x \<in> set new. stamp_of x = None \<or>
                  stamp_of x = Some
                    (if sync_frames s then now_at_stamp env + ros_time_offset s
                     else now_at_init env0
                          + (get_timestamp (header frame) - get_timestamp (header frame0)) / 1000))"
    if "frame_callback nd cp env frame s = Returns s'" for s'
    using frame_callback_ok [of env frame s nd cp] that
    by (auto simp: init t step_ok_def)
  obtain new where new: "outputs (imu_callback env' motion s) = outputs s @ new"
    and st: "\<forall>x \<in> set new. stamp_of x = Some
               (now_at_init env0
                + (get_timestamp motion - get_timestamp (header frame0)) / 1000)"
    using imu_callback_stamps [of env' motion s] by (auto simp: w c)
  have ne: "new \<noteq> []"
    if "(if stream_type motion = fst GYRO then GYRO else ACCEL) \<in> imu_publishers s \<and>
        imu_subscribers env' (if stream_type motion = fst GYRO then GYRO else ACCEL) \<noteq> 0"
    using imu_callback_publishes [OF flag, of motion env'] that new by auto
  from a new st ne show ?thesis by blast
qed

text \<open>
  Claim C2, at an input where the code departs from it. Synchronised publishing is on, the
  time base has wall-clock origin 10 and hardware origin 1000, the offset is 0. A gyro frame
  with timestamp 1500 reaches the motion callback while the wall clock reads 99. The claim
  asks for the stamp \<open>99\<close>; the motion callback does not test the mode and stamps the
  message \<open>10 + (1500 - 1000) / 1000 = 21 / 2\<close>.
\<close>

theorem imu_stamp_ignores_sync:
  "sync_frames synced_node \<and> intialize_time_base synced_node \<and>
   ros_time_base synced_node = 10 \<and> camera_time_base synced_node = 1000 \<and>
   now_at_stamp (clock_env 99) + ros_time_offset synced_node = 99 \<and>
   map stamp_of (outputs (imu_callback (clock_env 99) (gyro_sample 2 1500) synced_node))
     = [Some (21 / 2)]"
  by (simp add: synced_node_def sync_start_node_def streaming_node_def new_node_def
        BaseRealSenseNode_def zero_node_def clock_env_def gyro_sample_def
        imu_callback_def Let_def stream_keys index_or_def)

lemma sync_start_node_fields:
  "\<not> intialize_time_base sync_start_node" "sync_frames sync_start_node"
  "ros_time_offset sync_start_node = 0" "GYRO \<in> imu_publishers sync_start_node"
  by (simp_all add: sync_start_node_def streaming_node_def new_node_def
        BaseRealSenseNode_def zero_node_def)

lemma gyro_sample_fields [simp]:
  "stream_type (gyro_sample n ts) = fst GYRO" "get_timestamp (gyro_sample n ts) = ts"
  by (simp_all add: gyro_sample_def stream_keys)

theorem stamps_from_time_base_witness:
  "(\<exists>s s'. session True True
             [Imu_event (clock_env 5) (gyro_sample 1 990),
              Frame_event (clock_env 10) (Single (depth_image 1 1000))] streaming_node
           = Returns s \<and>
          \<not> sync_frames s \<and>
          frame_callback True True (clock_env 12) (Single (depth_image 2 1500)) s = Returns s' \<and>
          (\<exists>new. outputs s' = outputs s @ new \<and>
             (\<forall>x \<in> set new. stamp_of x = None \<or> stamp_of x = Some (21 / 2)))) \<and>
   (\<exists>s s'. session True True
             [Frame_event (clock_env 10) (Single (depth_image 1 1000))] sync_start_node
           = Returns s \<and>
          sync_frames s \<and>
          frame_callback True True (clock_env 12) (Single (depth_image 2 1500)) s = Returns s' \<and>
          (\<exists>new. outputs s' = outputs s @ new \<and>
             (\<forall>x \<in> set new. stamp_of x = None \<or> stamp_of x = Some 12)) \<and>
          (\<exists>new. outputs (imu_callback (clock_env 99) (gyro_sample 2 1500) s) = outputs s @ new \<and>
             new \<noteq> [] \<and> (\<forall>x \<in> set new. stamp_of x = Some (21 / 2))))"
proof -
  have off: "\<exists>s s'. session True True
             [Imu_event (clock_env 5) (gyro_sample 1 990),
              Frame_event (clock_env 10) (Single (depth_image 1 1000))] streaming_node
           = Returns s \<and>
          \<not> sync_frames s \<and>
          frame_callback True True (clock_env 12) (Single (depth_image 2 1500)) s = Returns s' \<and>
          (\<exists>new. outputs s' = outputs s @ new \<and>
             (\<forall>x \<in> set new. stamp_of x = None \<or> stamp_of x = Some (21 / 2)))"
  proof -
    obtain s where s: "session True True
             [Imu_event (clock_env 5) (gyro_sample 1 990),
              Frame_event (clock_env 10) (Single (depth_image 1 1000))] streaming_node
           = Returns s"
      using session_returns [of True] by blast
    obtain s' where s': "frame_callback True True (clock_env 12)
        (Single (depth_image 2 1500)) s = Returns s'"
      using frame_callback_returns [of True] by blast
    have sync: "\<not> sync_frames s"
      using session_settings [OF s] streaming_node_fields(2) by (simp add: settings_of_def)
    have first: "first_frame_event
             [Imu_event (clock_env 5) (gyro_sample 1 990),
              Frame_event (clock_env 10) (Single (depth_image 1 1000))]
      = Some (clock_env 10, Single (depth_image 1 1000))"
      by simp
    from stamps_from_time_base [OF s streaming_node_fields(1) first,
        of "clock_env 12" "Single (depth_image 2 1500)", THEN conjunct1, rule_format, OF s'] sync
    have "\<exists>new. outputs s' = outputs s @ new \<and>
             (\<forall>x \<in> set new. stamp_of x = None \<or> stamp_of x = Some (21 / 2))"
      by simp
    then show ?thesis
      by (intro exI [of _ s] exI [of _ s'] conjI s s' sync)
  qed
  have on: "\<exists>s s'. session True True
             [Frame_event (clock_env 10) (Single (depth_image 1 1000))] sync_start_node
           = Returns s \<and>
          sync_frames s \<and>
          frame_callback True True (clock_env 12) (Single (depth_image 2 1500)) s = Returns s' \<and>
          (\<exists>new. outputs s' = outputs s @ new \<and>
             (\<forall>x \<in> set new. stamp_of x = None \<or> stamp_of x = Some 12)) \<and>
          (\<exists>new. outputs (imu_callback (clock_env 99) (gyro_sample 2 1500) s) = outputs s @ new \<and>
             new \<noteq> [] \<and> (\<forall>x \<in> set new. stamp_of x = Some (21 / 2)))"
  proof -
    obtain s where s: "session True True
             [Frame_event (clock_env 10) (Single (depth_image 1 1000))] sync_start_node
           = Returns s"
      using session_returns [of True] by blast
    obtain s' where s': "frame_callback True True (clock_env 12)
        (Single (depth_image 2 1500)) s = Returns s'"
      using frame_callback_returns [of True] by blast
    have sync: "sync_frames s" and offset: "ros_time_offset s = 0"
      using session_settings [OF s] sync_start_node_fields(2,3)
      by (simp_all add: settings_of_def)
    have gyro: "GYRO \<in> imu_publishers s"
      using session_imu_publishers [OF s] sync_start_node_fields(4) by blast
    have first: "first_frame_event
             [Frame_event (clock_env 10) (Single (depth_image 1 1000))]
      = Some (clock_env 10, Single (depth_image 1 1000))"
      by simp
    note inst = stamps_from_time_base [OF s sync_start_node_fields(1) first,
        of "clock_env 12" "Single (depth_image 2 1500)" "clock_env 99" "gyro_sample 2 1500"]
    from inst [THEN conjunct1, rule_format, OF s'] sync offset
    have fr: "\<exists>new. outputs s' = outputs s @ new \<and>
             (\<forall>x \<in> set new. stamp_of x = None \<or> stamp_of x = Some 12)"
      by simp
    from inst [THEN conjunct2] obtain new where
      n1: "outputs (imu_callback (clock_env 99) (gyro_sample 2 1500) s) = outputs s @ new"
      and n2: "\<forall>x \<in> set new. stamp_of x = Some
               (now_at_init (clock_env 10)
                + (get_timestamp (gyro_sample 2 1500)
                   - get_timestamp (header (Single (depth_image 1 1000)))) / 1000)"
      and n3: "(if stream_type (gyro_sample 2 1500) = fst GYRO then GYRO else ACCEL)
                 \<in> imu_publishers s \<and>
               imu_subscribers (clock_env 99)
                 (if stream_type (gyro_sample 2 1500) = fst GYRO then GYRO else ACCEL) \<noteq> 0
               \<longrightarrow> new \<noteq> []"
      by blast
    from n3 gyro have ne: "new \<noteq> []" by (simp add: clock_env_def)
    from n2 have st: "\<forall>x \<in> set new. stamp_of x = Some (21 / 2)" by simp
    have im: "\<exists>new. outputs (imu_callback (clock_env 99) (gyro_sample 2 1500) s)
          = outputs s @ new \<and> new \<noteq> [] \<and> (\<forall>x \<in> set new. stamp_of x = Some (21 / 2))"
      by (intro exI [of _ new] conjI n1 ne st)
    show ?thesis
      by (intro exI [of _ s] exI [of _ s'] conjI s s' sync fr im)
  qed
  from off on show ?thesis by (rule conjI)
qed

subsection \<open>The colorizer and the descriptor of DEPTH\<close>











subsection \<open>Frames with the same stream type and index\<close>








subsection \<open>What reaches the stream publishers and the point-cloud publisher\<close>

lemma grows_by_refl [simp]: "grows_by P s s"
  by (simp add: grows_by_def)

lemma grows_by_same [simp]: "outputs s' = outputs s \<Longrightarrow> grows_by P s s'"
  by (simp add: grows_by_def)


























subsection \<open>Profile negotiation\<close>

lemma scan_profiles_find:
  "scan_profiles elem profiles s =
     (case find (profile_matches s elem) profiles of
        None \<Rightarrow> s
      | Some profile \<Rightarrow> accept_profile elem profile s)"
  by (induction profiles) simp_all

lemma profile_matches_view:
  "stream_view s1 k = stream_view s2 k \<Longrightarrow> profile_matches s1 k = profile_matches s2 k"
  by (rule ext) (simp add: profile_matches_def stream_view_def)

lemma accept_profile_view:
  "stream_view (accept_profile elem profile s) k =
     (if k = elem then
        (enable s k, format s k, profile_width profile, profile_height profile,
         profile_fps profile, Some (index_or [] (enabled_profiles s) k @ [profile]),
         filter (is_warning_for k) (outputs s))
      else stream_view s k)"
  by (simp add: accept_profile_def stream_view_def Let_def)

lemma enable_stream_view_other:
  "k \<noteq> elem \<Longrightarrow> stream_view (enable_stream g elem s) k = stream_view s k"
  by (simp add: enable_stream_def scan_profiles_find Let_def stream_view_def
        accept_profile_def split: option.splits)

lemma enable_stream_view_self:
  "stream_view (enable_stream g k s) k =
     (if enable s k then
        (case find (profile_matches s k) (g k) of
           None \<Rightarrow>
             (if enabled_profiles s k = None
              then (False, format s k, width s k, height s k, fps s k, None,
                    filter (is_warning_for k) (outputs s)
                      @ [Warn_not_supported k (format s k) (width s k) (height s k) (fps s k)])
              else stream_view s k)
         | Some p \<Rightarrow>
             (True, format s k, profile_width p, profile_height p, profile_fps p,
              Some (index_or [] (enabled_profiles s) k @ [p]),
              filter (is_warning_for k) (outputs s)))
      else stream_view s k)"
  by (auto simp: enable_stream_def scan_profiles_find Let_def stream_view_def
        accept_profile_def split: option.splits)

lemma enable_stream_view_cong:
  assumes "stream_view s1 k = stream_view s2 k"
  shows "stream_view (enable_stream g k s1) k = stream_view (enable_stream g k s2) k"
proof -
  have pm: "profile_matches s1 k = profile_matches s2 k"
    by (rule profile_matches_view [OF assms])
  from assms have f: "enable s1 k = enable s2 k" "format s1 k = format s2 k"
    "width s1 k = width s2 k" "height s1 k = height s2 k" "fps s1 k = fps s2 k"
    "enabled_profiles s1 k = enabled_profiles s2 k"
    "filter (is_warning_for k) (outputs s1) = filter (is_warning_for k) (outputs s2)"
    by (simp_all add: stream_view_def)
  show ?thesis
    unfolding enable_stream_view_self index_or_def pm f assms ..
qed

lemma fold_enable_stream_other:
  "k \<notin> set elems \<Longrightarrow> stream_view (fold (enable_stream g) elems s) k = stream_view s k"
  by (induction elems arbitrary: s) (auto simp: enable_stream_view_other)

lemma fold_enable_stream_self:
  "distinct elems \<Longrightarrow> k \<in> set elems \<Longrightarrow>
   stream_view (fold (enable_stream g) elems s) k = stream_view (enable_stream g k s) k"
proof (induction elems arbitrary: s)
  case Nil
  then show ?case by simp
next
  case (Cons e elems)
  show ?case
  proof (cases "k = e")
    case True
    with Cons.prems have "k \<notin> set elems" by simp
    from fold_enable_stream_other [OF this] True show ?thesis by simp
  next
    case False
    with Cons.prems have k: "k \<in> set elems" and d: "distinct elems" by simp_all
    have "stream_view (fold (enable_stream g) elems (enable_stream g e s)) k
        = stream_view (enable_stream g k (enable_stream g e s)) k"
      by (rule Cons.IH [OF d k])
    also have "\<dots> = stream_view (enable_stream g k s) k"
      by (rule enable_stream_view_cong) (rule enable_stream_view_other [OF False])
    finally show ?thesis by simp
  qed
qed

lemma fold_fold_concat: "fold (\<lambda>xs. fold f xs) xss s = fold f (concat xss) s"
  by (induction xss arbitrary: s) simp_all

lemma enable_devices_view:
  assumes "distinct (concat IMAGE_STREAMS)" and "k \<in> set (concat IMAGE_STREAMS)"
  shows "stream_view (enable_devices IMAGE_STREAMS g s) k = stream_view (enable_stream g k s) k"
proof -
  have "fold (\<lambda>streams. fold (enable_stream g) streams) IMAGE_STREAMS s
      = fold (enable_stream g) (concat IMAGE_STREAMS) s"
    by (rule fold_fold_concat)
  then have "stream_view (enable_devices IMAGE_STREAMS g s) k
      = stream_view (fold (enable_stream g) (concat IMAGE_STREAMS) s) k"
    by (simp add: enable_devices_def Let_def stream_view_def)
  with fold_enable_stream_self [OF assms] show ?thesis by simp
qed

lemma enable_devices_view_other:
  assumes "k \<notin> set (concat IMAGE_STREAMS)"
  shows "stream_view (enable_devices IMAGE_STREAMS g s) k = stream_view s k"
proof -
  have "fold (\<lambda>streams. fold (enable_stream g) streams) IMAGE_STREAMS s
      = fold (enable_stream g) (concat IMAGE_STREAMS) s"
    by (rule fold_fold_concat)
  then have "stream_view (enable_devices IMAGE_STREAMS g s) k
      = stream_view (fold (enable_stream g) (concat IMAGE_STREAMS) s) k"
    by (simp add: enable_devices_def Let_def stream_view_def)
  with fold_enable_stream_other [OF assms] show ?thesis by simp
qed

text \<open>
  Claim C5. Let the stream keys of \<open>IMAGE_STREAMS\<close> be distinct, and \<open>k\<close> be one of them
  that is enabled and has no profile yet. If the profile at position \<open>i\<close> of the list its
  sensor reports matches the request (format, index, and width, height and rate each equal
  or requested as 0) and no earlier one does, the stream stays enabled, that profile is the
  one recorded, its width, height and rate are written to the descriptor, and no warning is
  logged for \<open>k\<close>. If no profile matches, the stream is disabled, its request stays as it
  was and one warning is logged for it. What the negotiation does for any other key is
  what it would do if the sensor of \<open>k\<close> reported nothing at all.
\<close>

theorem enable_devices_first_match:
  fixes get_stream_profiles :: "stream_index_pair \<Rightarrow> stream_profile list"
  assumes "distinct (concat IMAGE_STREAMS)" and "k \<in> set (concat IMAGE_STREAMS)"
    and "enable s k" and "enabled_profiles s k = None"
    and "filter (is_warning_for k) (outputs s) = []"
  defines "s' \<equiv> enable_devices IMAGE_STREAMS get_stream_profiles s"
  shows "(\<forall>i < length (get_stream_profiles k).
            profile_matches s k (get_stream_profiles k ! i) \<and>
            (\<forall>j < i. \<not> profile_matches s k (get_stream_profiles k ! j)) \<longrightarrow>
            enable s' k \<and>
            enabled_profiles s' k = Some [get_stream_profiles k ! i] \<and>
            width s' k = profile_width (get_stream_profiles k ! i) \<and>
            height s' k = profile_height (get_stream_profiles k ! i) \<and>
            fps s' k = profile_fps (get_stream_profiles k ! i) \<and>
            filter (is_warning_for k) (outputs s') = []) \<and>
         ((\<forall>p \<in> set (get_stream_profiles k). \<not> profile_matches s k p) \<longrightarrow>
            \<not> enable s' k \<and> enabled_profiles s' k = None \<and>
            width s' k = width s k \<and> height s' k = height s k \<and> fps s' k = fps s k \<and>
            filter (is_warning_for k) (outputs s')
              = [Warn_not_supported k (format s k) (width s k) (height s k) (fps s k)]) \<and>
         (\<forall>k'. k' \<noteq> k \<longrightarrow>
            stream_view s' k' = stream_view (enable_devices IMAGE_STREAMS
               (get_stream_profiles(k := [])) s) k')"
proof -
  have view: "stream_view s' k = stream_view (enable_stream get_stream_profiles k s) k"
    unfolding s'_def by (rule enable_devices_view [OF assms(1,2)])
  have hit: "enable s' k \<and>
            enabled_profiles s' k = Some [get_stream_profiles k ! i] \<and>
            width s' k = profile_width (get_stream_profiles k ! i) \<and>
            height s' k = profile_height (get_stream_profiles k ! i) \<and>
            fps s' k = profile_fps (get_stream_profiles k ! i) \<and>
            filter (is_warning_for k) (outputs s') = []"
    if i: "i < length (get_stream_profiles k)"
      and m: "profile_matches s k (get_stream_profiles k ! i)"
      and first: "\<forall>j < i. \<not> profile_matches s k (get_stream_profiles k ! j)" for i
  proof -
    have "find (profile_matches s k) (get_stream_profiles k) = Some (get_stream_profiles k ! i)"
      using i m first by (auto simp: find_Some_iff)
    with assms(3-5) have "stream_view s' k =
        (True, format s k, profile_width (get_stream_profiles k ! i),
         profile_height (get_stream_profiles k ! i), profile_fps (get_stream_profiles k ! i),
         Some [get_stream_profiles k ! i], [])"
      unfolding view by (simp add: enable_stream_view_self index_or_def)
    then show ?thesis by (simp add: stream_view_def)
  qed
  have miss: "\<not> enable s' k \<and> enabled_profiles s' k = None \<and>
            width s' k = width s k \<and> height s' k = height s k \<and> fps s' k = fps s k \<and>
            filter (is_warning_for k) (outputs s')
              = [Warn_not_supported k (format s k) (width s k) (height s k) (fps s k)]"
    if "\<forall>p \<in> set (get_stream_profiles k). \<not> profile_matches s k p"
  proof -
    have "find (profile_matches s k) (get_stream_profiles k) = None"
      using that by (simp add: find_None_iff)
    with assms(3-5) have "stream_view s' k =
        (False, format s k, width s k, height s k, fps s k, None,
         [Warn_not_supported k (format s k) (width s k) (height s k) (fps s k)])"
      unfolding view by (simp add: enable_stream_view_self)
    then show ?thesis by (simp add: stream_view_def)
  qed
  have others: "stream_view s' k' = stream_view (enable_devices IMAGE_STREAMS
               (get_stream_profiles(k := [])) s) k'" if "k' \<noteq> k" for k'
  proof (cases "k' \<in> set (concat IMAGE_STREAMS)")
    case True
    have "stream_view (enable_stream get_stream_profiles k' s) k'
        = stream_view (enable_stream (get_stream_profiles(k := [])) k' s) k'"
      using that by (simp add: enable_stream_view_self)
    then show ?thesis
      unfolding s'_def by (simp add: enable_devices_view [OF assms(1) True])
  next
    case False
    then show ?thesis
      unfolding s'_def by (simp add: enable_devices_view_other)
  qed
  from hit miss others show ?thesis by blast
qed

lemma requesting_node_fields:
  "enable requesting_node DEPTH" "enable requesting_node COLOR"
  "enabled_profiles requesting_node k = None"
  "outputs requesting_node = []"
  "format requesting_node DEPTH = RS2_FORMAT_Z16" "format requesting_node COLOR = RS2_FORMAT_RGB8"
  "width requesting_node DEPTH = 848" "height requesting_node DEPTH = 480"
  "fps requesting_node DEPTH = 0"
  "width requesting_node COLOR = 1920" "height requesting_node COLOR = 1080"
  "fps requesting_node COLOR = 60"
  by (simp_all add: requesting_node_def new_node_def BaseRealSenseNode_def zero_node_def
        stream_keys)

lemma key_parts [simp]:
  "snd DEPTH = 0" "snd COLOR = 0" "fst DEPTH = RS2_STREAM_DEPTH" "fst COLOR = RS2_STREAM_COLOR"
  "DEPTH \<noteq> COLOR" "COLOR \<noteq> DEPTH"
  by (simp_all add: stream_keys)

lemma image_streams_distinct:
  "distinct (concat image_streams)" "DEPTH \<in> set (concat image_streams)"
  "COLOR \<in> set (concat image_streams)"
  by (simp_all add: image_streams_def stream_keys)

theorem enable_devices_first_match_witness:
  "distinct (concat image_streams) \<and>
   enable requesting_node DEPTH \<and> enable requesting_node COLOR \<and>
   enable (enable_devices image_streams device_profiles requesting_node) DEPTH \<and>
   enabled_profiles (enable_devices image_streams device_profiles requesting_node) DEPTH
     = Some [video_profile DEPTH RS2_FORMAT_Z16 848 480 30] \<and>
   fps (enable_devices image_streams device_profiles requesting_node) DEPTH = 30 \<and>
   \<not> enable (enable_devices image_streams device_profiles requesting_node) COLOR \<and>
   filter (is_warning_for COLOR)
     (outputs (enable_devices image_streams device_profiles requesting_node))
     = [Warn_not_supported COLOR RS2_FORMAT_RGB8 1920 1080 60]"
proof -
  have nowarn: "\<And>k. filter (is_warning_for k) (outputs requesting_node) = []"
    by (simp add: requesting_node_fields)
  note depth = enable_devices_first_match [OF image_streams_distinct(1,2)
      requesting_node_fields(1) requesting_node_fields(3) nowarn, of device_profiles]
  note color = enable_devices_first_match [OF image_streams_distinct(1,3)
      requesting_node_fields(2) requesting_node_fields(3) nowarn, of device_profiles]
  have dp: "device_profiles DEPTH ! 1 = video_profile DEPTH RS2_FORMAT_Z16 848 480 30"
    "device_profiles DEPTH ! 0 = video_profile DEPTH RS2_FORMAT_Z16 640 480 30"
    "length (device_profiles DEPTH) = 3"
    "device_profiles DEPTH ! Suc 0 = video_profile DEPTH RS2_FORMAT_Z16 848 480 30"
    by (simp_all add: device_profiles_def)
  have m1: "profile_matches requesting_node DEPTH (device_profiles DEPTH ! 1)"
    unfolding dp by (simp add: profile_matches_def requesting_node_fields video_profile_def)
  have m0: "\<forall>j < 1. \<not> profile_matches requesting_node DEPTH (device_profiles DEPTH ! j)"
    unfolding dp by (simp add: profile_matches_def requesting_node_fields video_profile_def dp)
  have i: "(1::nat) < length (device_profiles DEPTH)" by (simp add: dp)
  from depth [THEN conjunct1, rule_format, OF i] m1 m0
  have d: "enable (enable_devices image_streams device_profiles requesting_node) DEPTH"
    "enabled_profiles (enable_devices image_streams device_profiles requesting_node) DEPTH
       = Some [video_profile DEPTH RS2_FORMAT_Z16 848 480 30]"
    "fps (enable_devices image_streams device_profiles requesting_node) DEPTH = 30"
    by (simp_all add: dp video_profile_def)
  have none: "\<forall>p \<in> set (device_profiles COLOR). \<not> profile_matches requesting_node COLOR p"
    by (simp add: device_profiles_def profile_matches_def requesting_node_fields
          video_profile_def)
  from color [THEN conjunct2, THEN conjunct1, THEN mp, OF none]
  have c: "\<not> enable (enable_devices image_streams device_profiles requesting_node) COLOR"
    "filter (is_warning_for COLOR)
       (outputs (enable_devices image_streams device_profiles requesting_node))
     = [Warn_not_supported COLOR RS2_FORMAT_RGB8 1920 1080 60]"
    by (simp_all add: requesting_node_fields)
  from image_streams_distinct(1) requesting_node_fields(1,2) d c show ?thesis
    by (intro conjI)
qed

subsection \<open>The point cloud\<close>

lemma count_valid_points_eq:
  "count_valid_points pc n =
     n + int (length (filter (\<lambda>p. uv_in_range (tu (snd p)) (tv (snd p))) pc))"
  by (induction pc arbitrary: n) simp_all

lemma fill_points_textured:
  "map (\<lambda>q. (point_x q, point_y q, point_z q)) (fill_points True tw th cd pc)
     = map (\<lambda>p. (vx (fst p), vy (fst p), vz (fst p)))
         (filter (\<lambda>p. uv_in_range (tu (snd p)) (tv (snd p))) pc)"
  by (induction pc) (simp_all add: Let_def)

lemma fill_points_untextured:
  "map (\<lambda>q. (point_x q, point_y q, point_z q)) (fill_points False tw th cd pc)
     = map (\<lambda>p. (vx (fst p), vy (fst p), vz (fst p))) pc"
  by (induction pc) (simp_all add: Let_def uv_in_range_def)

lemma fill_points_white:
  "q \<in> set (fill_points False 0 0 no_color pc) \<Longrightarrow>
   point_r q = 255 \<and> point_g q = 255 \<and> point_b q = 255"
  by (induction pc) (auto simp: Let_def uv_in_range_def to_int_def no_color_def)

text \<open>
  With a texture frame in the set, the first pass and the second pass agree: the declared
  width is the number of records written, and the records are the points whose texture
  coordinates are in range, in order.
\<close>

lemma textured_cloud_exact:
  assumes "build_pointcloud True tw th cd pc t s = Returns s'"
  shows "\<exists>msg. outputs s' = outputs s @ [Pointcloud_published msg] \<and>
           msg_width msg = int (length (msg_written msg)) \<and>
           map (\<lambda>q. (point_x q, point_y q, point_z q)) (msg_written msg)
             = map (\<lambda>p. (vx (fst p), vy (fst p), vz (fst p)))
                 (filter (\<lambda>p. uv_in_range (tu (snd p)) (tv (snd p))) pc)"
proof -
  have "length (fill_points True tw th cd pc)
      = length (filter (\<lambda>p. uv_in_range (tu (snd p)) (tv (snd p))) pc)"
    using fill_points_textured [of tw th cd pc, THEN arg_cong, of length] by simp
  with assms show ?thesis
    by (auto simp: build_pointcloud_def Let_def count_valid_points_eq fill_points_textured)
qed

text \<open>
  Without a texture stream every record written is white, the declared width is the number
  of points whose texture coordinates are in range, and a record is written for every
  point.
\<close>

lemma untextured_cloud:
  assumes "fst (pointcloud_texture s) = RS2_STREAM_ANY"
  shows "\<exists>s' msg. publishPointCloud nd pc t frameset s = Returns s' \<and>
           outputs s' = outputs s @ [Pointcloud_published msg] \<and>
           msg_width msg = int (length (filter (\<lambda>p. uv_in_range (tu (snd p)) (tv (snd p))) pc)) \<and>
           length (msg_written msg) = length pc \<and>
           (\<forall>q \<in> set (msg_written msg). point_r q = 255 \<and> point_g q = 255 \<and> point_b q = 255)"
proof -
  have "length (fill_points False 0 0 no_color pc) = length pc"
    using fill_points_untextured [of 0 0 no_color pc, THEN arg_cong, of length] by simp
  with assms fill_points_white show ?thesis
    by (simp add: publishPointCloud_def build_pointcloud_def Let_def count_valid_points_eq)
qed

text \<open>
  Claim C1, at an input where the code departs from it. No texture stream is configured and
  the point set has two points, the first with texture coordinates \<open>(2, 2)\<close>, the second
  with \<open>(1/2, 1/2)\<close>. The first pass counts one valid point, so the message is declared
  with width 1; the second pass tests \<open>(0, 0)\<close> for every point and writes two records,
  the first of them for the point whose coordinates are out of range.
\<close>

theorem untextured_cloud_overrun:
  "outputs_of (publishPointCloud False two_points 7 [] new_node) =
     [Pointcloud_published \<lparr>msg_stamp = 7, msg_frame_id = [], msg_width = 1, msg_height = 1,
        msg_is_dense = True,
        msg_written =
          [\<lparr>point_x = 1, point_y = 2, point_z = 3,
            point_r = 255, point_g = 255, point_b = 255\<rparr>,
           \<lparr>point_x = 4, point_y = 5, point_z = 6,
            point_r = 255, point_g = 255, point_b = 255\<rparr>]\<rparr>]"
  by (simp add: publishPointCloud_def build_pointcloud_def Let_def two_points_def
        uv_in_range_def to_int_def no_color_def index_or_def
        new_node_def BaseRealSenseNode_def zero_node_def)

end
